theory Spec2Isabelle
  imports Main
begin

section \<open>Strings as the scripts use them\<close>

text \<open>
  Strings are byte lists. The console messages of the TypeScript samples begin with
  pictographs; they are written here as the UTF-8 bytes the source file holds. Substring
  containment, the only string test the samples make, does not depend on the encoding.
\<close>

text \<open>\<^verbatim>\<open>s.includes(t)\<close> of JavaScript: \<open>t\<close> occurs in \<open>s\<close> as a contiguous run.\<close>

fun str_includes :: "string \<Rightarrow> string \<Rightarrow> bool" where
  "str_includes [] t = (t = [])"
| "str_includes (c # s) t = (take (length t) (c # s) = t \<or> str_includes s t)"

definition digit_char :: "nat \<Rightarrow> char" where
  "digit_char d = ''0123456789'' ! d"

text \<open>Decimal rendering of a number, as a template literal or a shell expansion prints it.\<close>

function show_nat :: "nat \<Rightarrow> string" where
  "show_nat n = (if n < 10 then [digit_char n] else show_nat (n div 10) @ [digit_char (n mod 10)])"
  by pat_completeness auto
termination
  by (relation "measure id") auto

declare show_nat.simps [simp del]

definition show_int :: "int \<Rightarrow> string" where
  "show_int i = (if i < 0 then CHR ''-'' # show_nat (nat (- i)) else show_nat (nat i))"

text \<open>A template literal prints a missing value as the word \<open>undefined\<close>.\<close>

definition js_str :: "string option \<Rightarrow> string" where
  "js_str v = (case v of None \<Rightarrow> ''undefined'' | Some s \<Rightarrow> s)"


section \<open>The credential samples (broker.ts)\<close>

subsection \<open>Thrown values\<close>

text \<open>
  A caught value has unknown shape. The catch blocks look at five things only: whether it
  is an \<open>Error\<close>, whether it is an \<open>AuthenticationError\<close>, its \<open>name\<close>, its
  \<open>message\<close> and its \<open>statusCode\<close>; \<open>String(error)\<close> is used for a value that is
  no \<open>Error\<close>. A status code is an integer when present (\<open>None\<close> is \<open>undefined\<close>).
\<close>

record failure =
  instanceof_Error :: bool
  instanceof_AuthenticationError :: bool
  name :: string
  message :: string
  statusCode :: "int option"
  string_form :: string

text \<open>\<^verbatim>\<open>new Error(msg)\<close>.\<close>

definition new_Error :: "string \<Rightarrow> failure" where
  "new_Error msg =
     \<lparr>instanceof_Error = True, instanceof_AuthenticationError = False, name = ''Error'',
      message = msg, statusCode = None, string_form = ''Error: '' @ msg\<rparr>"

text \<open>\<^verbatim>\<open>if (restError.statusCode)\<close>: a number is truthy unless it is zero.\<close>

definition truthy :: "int option \<Rightarrow> bool" where
  "truthy sc = (case sc of None \<Rightarrow> False | Some n \<Rightarrow> n \<noteq> 0)"

subsection \<open>Outcome codes\<close>

datatype outcome_code =
  Success | UnexpectedError | AuthenticationFailed | ServiceRequestFailed | InvalidConfiguration

text \<open>The exit status that stands for each outcome code.\<close>

fun exit_status :: "outcome_code \<Rightarrow> int" where
  "exit_status Success = 0"
| "exit_status UnexpectedError = 1"
| "exit_status AuthenticationFailed = 2"
| "exit_status ServiceRequestFailed = 3"
| "exit_status InvalidConfiguration = 4"

subsection \<open>Messages\<close>

definition cross_mark :: string where
  "cross_mark = [CHR 0xE2, CHR 0x9D, CHR 0x8C]"

definition check_mark :: string where
  "check_mark = [CHR 0xE2, CHR 0x9C, CHR 0x85]"

definition key_sign :: string where
  "key_sign = [CHR 0xF0, CHR 0x9F, CHR 0x94, CHR 0x91]"

definition calendar_sign :: string where
  "calendar_sign = [CHR 0xF0, CHR 0x9F, CHR 0x93, CHR 0x85]"

definition lock_sign :: string where
  "lock_sign = [CHR 0xF0, CHR 0x9F, CHR 0x94, CHR 0x90]"

definition no_entry_sign :: string where
  "no_entry_sign = [CHR 0xF0, CHR 0x9F, CHR 0x9A, CHR 0xAB]"

definition magnifier_sign :: string where
  "magnifier_sign = [CHR 0xF0, CHR 0x9F, CHR 0x94, CHR 0x8D]"

definition warning_sign :: string where
  "warning_sign = [CHR 0xE2, CHR 0x9A, CHR 0xA0, CHR 0xEF, CHR 0xB8, CHR 0x8F]"

definition globe_sign :: string where
  "globe_sign = [CHR 0xF0, CHR 0x9F, CHR 0x8C, CHR 0x90]"

definition collision_sign :: string where
  "collision_sign = [CHR 0xF0, CHR 0x9F, CHR 0x92, CHR 0xA5]"

definition auth_failed_msg :: "string \<Rightarrow> string" where
  "auth_failed_msg reason = lock_sign @ '' Authentication failed: '' @ reason"

definition msg_401 :: string where
  "msg_401 = cross_mark @
     '' Authentication failed. Please ensure you're signed in to Azure and have the correct permissions.''"

definition msg_403 :: string where
  "msg_403 = no_entry_sign @ '' Access denied. Please check your Azure Key Vault access policies.''"

definition msg_404 :: string where
  "msg_404 = magnifier_sign @
     '' Secret 'MySecret' not found in the Key Vault. Please verify the secret name and Key Vault URL.''"

text \<open>A template literal prints a number in decimal and a missing one as \<open>undefined\<close>.\<close>

definition js_num :: "int option \<Rightarrow> string" where
  "js_num v = (case v of None \<Rightarrow> ''undefined'' | Some n \<Rightarrow> show_int n)"

definition msg_service :: "int option \<Rightarrow> string \<Rightarrow> string" where
  "msg_service code body =
     warning_sign @ '' Azure Key Vault error ('' @ js_num code @ ''): '' @ body"

definition msg_invalid_url :: string where
  "msg_invalid_url = globe_sign @
     '' Invalid Key Vault URL. Please update the vaultUri in the code with your actual Key Vault URL.''"

definition msg_unexpected :: "string \<Rightarrow> string" where
  "msg_unexpected body = collision_sign @ '' An unexpected error occurred: '' @ body"

subsection \<open>The catch block\<close>

text \<open>
  Both samples end in the same ladder; the first calls \<^verbatim>\<open>process.exit\<close> with the
  number, the second returns it from \<open>main\<close>. \<open>classify\<close> gives that number and
  the line written to the error console. The code after the ladder is reached by a
  \<open>RestError\<close> whose status code is not truthy and by everything no branch takes.
\<close>

definition unexpected :: "failure \<Rightarrow> int \<times> string" where
  "unexpected error =
     (1, msg_unexpected (if instanceof_Error error then message error else string_form error))"

definition classify :: "failure \<Rightarrow> int \<times> string" where
  "classify error =
     (if instanceof_AuthenticationError error then (2, auth_failed_msg (message error))
      else if instanceof_Error error \<and> name error = ''RestError'' then
        (if truthy (statusCode error) then
           (3, if statusCode error = Some 401 then msg_401
               else if statusCode error = Some 403 then msg_403
               else if statusCode error = Some 404 then msg_404
               else msg_service (statusCode error) (message error))
         else unexpected error)
      else if instanceof_Error error \<and> str_includes (message error) ''Invalid URL'' then
        (4, msg_invalid_url)
      else unexpected error)"

subsection \<open>The world the samples run in\<close>

text \<open>
  The credential and the secrets client belong to vendor libraries. Each of their calls is
  given by the world: what registering the broker plugin throws, if anything; what
  constructing the credential throws for the tenant it is given (\<open>None\<close> when no tenant is
  passed); what constructing a client for an address throws; and what retrieving a secret
  throws or returns.
\<close>

record secret =
  secret_value :: "string option"
  createdOn :: "string option"

record kv_world =
  AZURE_KEY_VAULT_URL :: "string option"
  AZURE_TENANT_ID :: "string option"
  useIdentityPlugin :: "failure option"
  new_InteractiveBrowserCredential :: "string option \<Rightarrow> failure option"
  new_SecretClient :: "string \<Rightarrow> failure option"
  getSecret :: "string \<Rightarrow> string \<Rightarrow> failure + secret"

datatype console_event =
  ConsoleLog string
| ConsoleError string
| ConsoleErrorValue failure
| Call_useIdentityPlugin
| New_InteractiveBrowserCredential "string option"
| New_SecretClient string
| Call_getSecret string
| New_DefaultAzureCredential
| New_ResourceManagementClient string
| Call_resourceGroups_list

text \<open>How a process ends: with an exit status, or with an exception nobody caught.\<close>

datatype process_end = Exit int | Uncaught failure

definition placeholder_url :: string where
  "placeholder_url = ''https://<your-key-vault-name>.vault.azure.net/''"

text \<open>\<^verbatim>\<open>process.env.AZURE_KEY_VAULT_URL! || "https://<your-key-vault-name>.vault.azure.net/"\<close>\<close>

definition vaultUri_of :: "string option \<Rightarrow> string" where
  "vaultUri_of v = (case v of None \<Rightarrow> placeholder_url
                    | Some s \<Rightarrow> if s = [] then placeholder_url else s)"

definition placeholder_lines :: "console_event list" where
  "placeholder_lines =
     [ConsoleError (cross_mark @
        '' Please set the AZURE_KEY_VAULT_URL environment variable or update the vaultUri in the code.''),
      ConsoleError
        ''   Example: export AZURE_KEY_VAULT_URL=\"https://your-vault-name.vault.azure.net/\"'']"

definition secret_lines :: "secret \<Rightarrow> console_event list" where
  "secret_lines s =
     [ConsoleLog (check_mark @ '' Secret 'MySecret' retrieved successfully!''),
      ConsoleLog (key_sign @ '' Value: '' @ js_str (secret_value s)),
      ConsoleLog (calendar_sign @ '' Created: '' @ js_str (createdOn s))]"

definition done_line :: console_event where
  "done_line = ConsoleLog (check_mark @ '' Done'')"

subsection \<open>First sample: the try block at top level\<close>

definition catch_exit :: "failure \<Rightarrow> console_event list \<Rightarrow> process_end \<times> console_event list" where
  "catch_exit error out = (Exit (fst (classify error)), out @ [ConsoleError (snd (classify error))])"

text \<open>The \<^verbatim>\<open>try\<close> statement with its \<^verbatim>\<open>catch\<close> block.\<close>

definition broker_try :: "kv_world \<Rightarrow> process_end \<times> console_event list" where
  "broker_try w =
     (let vaultUri = vaultUri_of (AZURE_KEY_VAULT_URL w);
          out0 = [ConsoleLog (''Using Key Vault URL: '' @ vaultUri)]
      in if str_includes vaultUri ''<your-key-vault-name>'' then (Exit 4, out0 @ placeholder_lines)
         else
           (case new_SecretClient w vaultUri of
              Some error \<Rightarrow> catch_exit error (out0 @ [New_SecretClient vaultUri])
            | None \<Rightarrow>
                (let out1 = out0 @ [New_SecretClient vaultUri,
                                    ConsoleLog ''Retrieving secret 'MySecret' from Key Vault...'',
                                    Call_getSecret ''MySecret'']
                 in case getSecret w vaultUri ''MySecret'' of
                      Inl error \<Rightarrow> catch_exit error out1
                    | Inr s \<Rightarrow> (Exit 0, out1 @ secret_lines s @ [done_line]))))"

text \<open>
  The module: the plugin is registered and the credential is constructed (without a
  tenant) at top level, before the \<^verbatim>\<open>try\<close> statement. What they throw has no
  handler around it.
\<close>

definition broker_script :: "kv_world \<Rightarrow> process_end \<times> console_event list" where
  "broker_script w =
     (case useIdentityPlugin w of
        Some error \<Rightarrow> (Uncaught error, [Call_useIdentityPlugin])
      | None \<Rightarrow>
          (case new_InteractiveBrowserCredential w None of
             Some error \<Rightarrow>
               (Uncaught error, [Call_useIdentityPlugin, New_InteractiveBrowserCredential None])
           | None \<Rightarrow>
               (fst (broker_try w),
                [Call_useIdentityPlugin, New_InteractiveBrowserCredential None]
                @ snd (broker_try w))))"

subsection \<open>Second sample: \<open>main\<close> returns the number\<close>

definition catch_return :: "failure \<Rightarrow> console_event list \<Rightarrow> (failure + int) \<times> console_event list" where
  "catch_return error out = (Inr (fst (classify error)), out @ [ConsoleError (snd (classify error))])"

text \<open>
  The promise of \<open>main\<close>: \<open>Inr n\<close> when it resolves with \<open>n\<close>, \<open>Inl e\<close> when it
  rejects. The credential is constructed inside the \<^verbatim>\<open>try\<close> block, with the tenant
  of the environment, before the endpoint is looked at.
\<close>

definition broker_main :: "kv_world \<Rightarrow> (failure + int) \<times> console_event list" where
  "broker_main w =
     (case new_InteractiveBrowserCredential w (AZURE_TENANT_ID w) of
        Some error \<Rightarrow> catch_return error [New_InteractiveBrowserCredential (AZURE_TENANT_ID w)]
      | None \<Rightarrow>
     (let vaultUri = vaultUri_of (AZURE_KEY_VAULT_URL w);
          out0 = [New_InteractiveBrowserCredential (AZURE_TENANT_ID w),
                  ConsoleLog (''Using Key Vault URL: '' @ vaultUri)]
      in if str_includes vaultUri ''<your-key-vault-name>'' then (Inr 4, out0 @ placeholder_lines)
         else
           (case new_SecretClient w vaultUri of
              Some error \<Rightarrow> catch_return error (out0 @ [New_SecretClient vaultUri])
            | None \<Rightarrow>
                (let out1 = out0 @ [New_SecretClient vaultUri,
                                    ConsoleLog ''Retrieving secret 'MySecret' from Key Vault...'',
                                    Call_getSecret ''MySecret'']
                 in case getSecret w vaultUri ''MySecret'' of
                      Inl error \<Rightarrow> catch_return error out1
                    | Inr s \<Rightarrow> (Inr 0, out1 @ secret_lines s)))))"

text \<open>
  The module registers the plugin at top level and then runs
  \<^verbatim>\<open>main().then(() => { console.log("Done"); process.exit(0); }).catch(...)\<close>:
  the callback of \<open>then\<close> takes no argument.
\<close>

definition broker_main_script :: "kv_world \<Rightarrow> process_end \<times> console_event list" where
  "broker_main_script w =
     (case useIdentityPlugin w of
        Some error \<Rightarrow> (Uncaught error, [Call_useIdentityPlugin])
      | None \<Rightarrow>
          (case fst (broker_main w) of
             Inr n \<Rightarrow> (Exit 0, Call_useIdentityPlugin # snd (broker_main w) @ [done_line])
           | Inl error \<Rightarrow>
               (Exit 1, Call_useIdentityPlugin # snd (broker_main w)
                        @ [ConsoleError (msg_unexpected (message error))])))"

text \<open>The calls that reach the vault.\<close>

fun is_remote_call :: "console_event \<Rightarrow> bool" where
  "is_remote_call (New_SecretClient u) = True"
| "is_remote_call (Call_getSecret n) = True"
| "is_remote_call e = False"

definition remote_calls :: "console_event list \<Rightarrow> console_event list" where
  "remote_calls out = filter is_remote_call out"


section \<open>The resource-listing sample\<close>

text \<open>
  The guard on the subscription identifier stands at the top level of the module, before
  \<open>main\<close> is called. Inside \<open>main\<close> the credential and the client are constructed
  and the listing yields the names of some groups and then ends or fails;
  \<^verbatim>\<open>main().catch\<close> prints what \<open>main\<close> rejects with, and the process then ends by
  itself, with status 0.
\<close>

record rm_world =
  AZURE_SUBSCRIPTION_ID :: "string option"
  new_DefaultAzureCredential :: "failure option"
  new_ResourceManagementClient :: "string \<Rightarrow> failure option"
  resourceGroups_list :: "string \<Rightarrow> string option list \<times> failure option"

definition item_lines :: "string option list \<Rightarrow> console_event list" where
  "item_lines items =
     map (\<lambda>(i, item). ConsoleLog (show_nat i @ '': '' @ js_str item))
         (zip [1 ..< Suc (length items)] items)"

definition list_main :: "rm_world \<Rightarrow> string \<Rightarrow> (failure + unit) \<times> console_event list" where
  "list_main w subscriptionId =
     (case new_DefaultAzureCredential w of
        Some error \<Rightarrow> (Inl error, [New_DefaultAzureCredential])
      | None \<Rightarrow>
     (case new_ResourceManagementClient w subscriptionId of
        Some error \<Rightarrow>
          (Inl error, [New_DefaultAzureCredential, New_ResourceManagementClient subscriptionId])
      | None \<Rightarrow>
     (let items = fst (resourceGroups_list w subscriptionId);
          out = [New_DefaultAzureCredential, New_ResourceManagementClient subscriptionId,
                 Call_resourceGroups_list]
                @ item_lines items
      in case snd (resourceGroups_list w subscriptionId) of
           Some error \<Rightarrow> (Inl error, out)
         | None \<Rightarrow>
             (Inr (), out @ [ConsoleLog (''Found '' @ show_nat (length items) @ '' resource group(s).'')]))))"

definition list_script :: "rm_world \<Rightarrow> process_end \<times> console_event list" where
  "list_script w =
     (case AZURE_SUBSCRIPTION_ID w of
        None \<Rightarrow> (Uncaught (new_Error ''AZURE_SUBSCRIPTION_ID environment variable is not set.''), [])
      | Some subscriptionId \<Rightarrow>
          if subscriptionId = [] then
            (Uncaught (new_Error ''AZURE_SUBSCRIPTION_ID environment variable is not set.''), [])
          else
            (let out0 = [ConsoleLog (''Using Subscription ID: '' @ subscriptionId)]
             in case fst (list_main w subscriptionId) of
                  Inl err \<Rightarrow> (Exit 0, out0 @ snd (list_main w subscriptionId) @ [ConsoleErrorValue err])
                | Inr u \<Rightarrow> (Exit 0, out0 @ snd (list_main w subscriptionId))))"


section \<open>The provisioning scripts\<close>

subsection \<open>What a script does and what it is told\<close>

text \<open>
  The four printing functions of the scripts write one line with a coloured tag; the tag is
  kept as the level. Every outside command has its own call site; the repeated write of the
  secret is the one command that runs more than once.
\<close>

datatype level = INFO | SUCCESS | WARNING | ERROR

datatype call =
  OpensslRand | AzAccountShow | AzAccountShowId | AzAccountShowName | AzAccountShowTenantId
| AzSignedInUserId | AzSignedInUserUpn | AzRoleDefinitionList | ReadReply
| AzGroupCreate | AzKeyvaultCreate | AzAccountSet | AzKeyvaultShowId | AzKeyvaultShowIdAgain
| AzRoleAssignmentCreate | AzKeyvaultSecretSet | Date | CatConfig

datatype event =
  Print level string
| Echo string
| Sleep int
| Run call
| WriteFile string string

text \<open>
  The world gives the exit status of each command (0 is success), the text a command
  substitution captures, the character typed at the prompt, and for the secret write
  whether its \<open>n\<close>-th invocation (counted from 0) succeeds.
\<close>

record sh_world =
  cmd_status :: "call \<Rightarrow> nat"
  cmd_output :: "call \<Rightarrow> string"
  REPLY :: string
  secret_set :: "nat \<Rightarrow> bool"

record run =
  exit_code :: nat
  out :: "event list"

text \<open>
  \<^verbatim>\<open>set -e\<close>: a simple command that fails ends the script with the status of the
  command. A command tested by \<^verbatim>\<open>if\<close> is exempt.
\<close>

definition errexit :: "sh_world \<Rightarrow> call \<Rightarrow> event list \<Rightarrow> (event list \<Rightarrow> run) \<Rightarrow> run" where
  "errexit w c tr k =
     (if cmd_status w c = 0 then k (tr @ [Run c])
      else \<lparr>exit_code = cmd_status w c, out = tr @ [Run c]\<rparr>)"

subsection \<open>Shell variables\<close>

definition RESOURCE_PREFIX :: string where
  "RESOURCE_PREFIX = ''kvbroker''"

definition LOCATION :: string where
  "LOCATION = ''eastus''"

definition RANDOM_SUFFIX :: "sh_world \<Rightarrow> string" where
  "RANDOM_SUFFIX w = cmd_output w OpensslRand"

definition RESOURCE_GROUP_NAME :: "sh_world \<Rightarrow> string" where
  "RESOURCE_GROUP_NAME w = RESOURCE_PREFIX @ ''rg'' @ RANDOM_SUFFIX w"

definition KEY_VAULT_NAME :: "sh_world \<Rightarrow> string" where
  "KEY_VAULT_NAME w = RESOURCE_PREFIX @ ''kv'' @ RANDOM_SUFFIX w"

definition SUBSCRIPTION_ID :: "sh_world \<Rightarrow> string" where
  "SUBSCRIPTION_ID w = cmd_output w AzAccountShowId"

definition SUBSCRIPTION_NAME :: "sh_world \<Rightarrow> string" where
  "SUBSCRIPTION_NAME w = cmd_output w AzAccountShowName"

definition TENANT_ID :: "sh_world \<Rightarrow> string" where
  "TENANT_ID w = cmd_output w AzAccountShowTenantId"

definition CURRENT_USER_OBJECT_ID :: "sh_world \<Rightarrow> string" where
  "CURRENT_USER_OBJECT_ID w = cmd_output w AzSignedInUserId"

definition CURRENT_USER_UPN :: "sh_world \<Rightarrow> string" where
  "CURRENT_USER_UPN w = cmd_output w AzSignedInUserUpn"

definition CONFIG_FILE :: string where
  "CONFIG_FILE = ''./keyvault-config.txt''"

definition MAX_RETRIES :: int where
  "MAX_RETRIES = 12"

text \<open>\<^verbatim>\<open>[[ ! $REPLY =~ ^[Yy]$ ]]\<close> lets the script go on for \<open>y\<close> and \<open>Y\<close> only.\<close>

definition confirmed :: "string \<Rightarrow> bool" where
  "confirmed reply = (reply = ''y'' \<or> reply = ''Y'')"

subsection \<open>The retry loop\<close>

text \<open>
  The loop owns two counters and writes to the terminal. The scripts fix the increment 5
  and the cap 30 in the arithmetic expression and start from the delay 10; they are
  parameters here, so that the loop can be stated for other values too. Shell integers
  are 64 bits wide; the values of the loop stay far below that, and unbounded integers
  stand for them.
\<close>

record retry_state =
  RETRY_COUNT :: int
  RETRY_DELAY :: int
  trace :: "event list"

text \<open>\<^verbatim>\<open>RETRY_DELAY=$((RETRY_DELAY < 30 ? RETRY_DELAY + 5 : 30))\<close>\<close>

definition retry_delay_update :: "int \<Rightarrow> int \<Rightarrow> int \<Rightarrow> int" where
  "retry_delay_update inc cap d = (if d < cap then d + inc else cap)"

definition attempts :: "event list \<Rightarrow> nat" where
  "attempts tr = length (filter (\<lambda>e. e = Run AzKeyvaultSecretSet) tr)"

fun slept :: "event list \<Rightarrow> int list" where
  "slept [] = []"
| "slept (Sleep d # es) = d # slept es"
| "slept (e # es) = slept es"

definition waiting_msg :: "int \<Rightarrow> int \<Rightarrow> int \<Rightarrow> string" where
  "waiting_msg count maxr delay =
     ''Attempt '' @ show_int (count + 1) @ ''/'' @ show_int maxr @ '' - Waiting '' @
     show_int delay @ '' seconds for RBAC propagation...''"

text \<open>The body before the attempt: from the second round on, wait and then raise the delay.\<close>

definition wait_step :: "int \<Rightarrow> int \<Rightarrow> int \<Rightarrow> retry_state \<Rightarrow> retry_state" where
  "wait_step maxr inc cap s =
     (if RETRY_COUNT s > 0 then
        s\<lparr>RETRY_DELAY := retry_delay_update inc cap (RETRY_DELAY s),
          trace := trace s @ [Print INFO (waiting_msg (RETRY_COUNT s) maxr (RETRY_DELAY s)),
                              Sleep (RETRY_DELAY s)]\<rparr>
      else s)"

definition on_success :: "retry_state \<Rightarrow> retry_state" where
  "on_success s =
     s\<lparr>trace := trace s @ [Run AzKeyvaultSecretSet,
                            Print SUCCESS ''Sample secret created successfully!'']\<rparr>"

text \<open>A failed attempt is counted; the round that uses up the budget prints the warnings.\<close>

definition on_failure :: "int \<Rightarrow> string list \<Rightarrow> retry_state \<Rightarrow> retry_state" where
  "on_failure maxr msgs s =
     s\<lparr>RETRY_COUNT := RETRY_COUNT s + 1,
       trace := trace s @ [Run AzKeyvaultSecretSet] @
                (if RETRY_COUNT s + 1 = maxr then map (Print WARNING) msgs else [])\<rparr>"

function retry_loop ::
  "int \<Rightarrow> int \<Rightarrow> int \<Rightarrow> string list \<Rightarrow> (nat \<Rightarrow> bool) \<Rightarrow> retry_state \<Rightarrow> retry_state" where
  "retry_loop maxr inc cap msgs op s =
     (if RETRY_COUNT s < maxr then
        (if op (attempts (trace (wait_step maxr inc cap s))) then
           on_success (wait_step maxr inc cap s)
         else retry_loop maxr inc cap msgs op (on_failure maxr msgs (wait_step maxr inc cap s)))
      else s)"
  by pat_completeness auto
termination
  by (relation "measure (\<lambda>(maxr, inc, cap, msgs, op, s). nat (maxr - RETRY_COUNT s))")
     (auto simp: on_failure_def wait_step_def)

declare retry_loop.simps [simp del]

definition retry_init :: "int \<Rightarrow> retry_state" where
  "retry_init base = \<lparr>RETRY_COUNT = 0, RETRY_DELAY = base, trace = []\<rparr>"

text \<open>The runner with all its parameters, and the one the scripts run.\<close>

definition retry_runner ::
  "int \<Rightarrow> int \<Rightarrow> int \<Rightarrow> int \<Rightarrow> string list \<Rightarrow> (nat \<Rightarrow> bool) \<Rightarrow> retry_state" where
  "retry_runner maxr base inc cap msgs op = retry_loop maxr inc cap msgs op (retry_init base)"

definition secret_retry :: "string list \<Rightarrow> (nat \<Rightarrow> bool) \<Rightarrow> retry_state" where
  "secret_retry msgs op = retry_runner MAX_RETRIES 10 5 30 msgs op"

text \<open>
  The delay as the description of the runner words it: raised by the increment,
  saturating at the cap. \<open>saturating_delay base inc cap i\<close> is the delay after \<open>i\<close> raises.
\<close>

fun saturating_delay :: "int \<Rightarrow> int \<Rightarrow> int \<Rightarrow> nat \<Rightarrow> int" where
  "saturating_delay base inc cap 0 = base"
| "saturating_delay base inc cap (Suc i) = min (saturating_delay base inc cap i + inc) cap"

text \<open>Every value the delay variable takes in a run, in order: the waits and the last value.\<close>

definition delay_history :: "retry_state \<Rightarrow> int list" where
  "delay_history s = slept (trace s) @ [RETRY_DELAY s]"

subsection \<open>The text the scripts print\<close>

definition exhausted_msgs1 :: "sh_world \<Rightarrow> string list" where
  "exhausted_msgs1 w =
     [''Failed to create sample secret after '' @ show_int MAX_RETRIES @ '' attempts.'',
      ''RBAC permissions may still be propagating. You can:'',
      ''  1. Wait a few more minutes and try manually:'',
      ''     az keyvault secret set --vault-name '' @ KEY_VAULT_NAME w @
        '' --name MySecret --value 'test'' @ [CHR 0x27],
      ''  2. Or proceed - the Key Vault is ready, just permissions need time.'']"

definition exhausted_msgs2 :: "sh_world \<Rightarrow> string list" where
  "exhausted_msgs2 w =
     [''Failed to create sample secret after '' @ show_int MAX_RETRIES @ '' attempts.'',
      ''RBAC permissions may still be propagating. You can create it manually:'',
      ''  az keyvault secret set --vault-name '' @ KEY_VAULT_NAME w @
        '' --name MySecret --value 'test'' @ [CHR 0x27],
      ''Or wait a few more minutes and try again.'']"

definition role_command :: "sh_world \<Rightarrow> string" where
  "role_command w =
     ''az role assignment create --assignee ''  @ [CHR 0x27] @ cmd_output w AzSignedInUserId @
     [CHR 0x27] @ '' --role 'Key Vault Secrets Officer' --scope '' @ [CHR 0x27] @
     cmd_output w AzKeyvaultShowIdAgain @ [CHR 0x27]"

definition skipped_msgs :: "sh_world \<Rightarrow> string list" where
  "skipped_msgs w =
     [''Skipping secret creation due to RBAC assignment failure.'',
      ''You can create the secret manually after setting up RBAC permissions:'',
      ''  1. First assign the role: '' @ role_command w,
      ''  2. Then create secret: az keyvault secret set --vault-name '' @ KEY_VAULT_NAME w @
        '' --name MySecret --value 'test'' @ [CHR 0x27]]"

definition secret_intro :: "event list" where
  "secret_intro =
     [Print INFO ''Creating sample secret 'MySecret' for testing...'',
      Print WARNING
        ''Note: RBAC permissions may take up to 5 minutes to propagate. Retrying if needed...'']"

definition vault_url :: "sh_world \<Rightarrow> string" where
  "vault_url w = ''https://'' @ KEY_VAULT_NAME w @ ''.vault.azure.net/''"

definition summary_lines :: "sh_world \<Rightarrow> event list" where
  "summary_lines w =
     [Echo [],
      Print SUCCESS ''Setup completed successfully!'',
      Echo [],
      Echo ''=== RESOURCE SUMMARY ==='',
      Echo (''Resource Group: '' @ RESOURCE_GROUP_NAME w),
      Echo (''Key Vault Name: '' @ KEY_VAULT_NAME w),
      Echo (''Key Vault URL: '' @ vault_url w),
      Echo (''Location: '' @ LOCATION),
      Echo (''User: '' @ CURRENT_USER_UPN w),
      Echo ''Role: Key Vault Secrets Officer'',
      Echo [],
      Echo ''=== NEXT STEPS ==='',
      Echo ''1. Set the Key Vault URL as an environment variable:'',
      Echo (''   export AZURE_KEY_VAULT_URL=\"'' @ vault_url w @ ''\"''),
      Echo [],
      Echo ''   Or add it to your .env file:'',
      Echo (''   echo \"AZURE_KEY_VAULT_URL='' @ vault_url w @ ''\" >> sample.env''),
      Echo [],
      Echo ''2. Run the brokered authentication sample:'',
      Echo ''   npm run build'',
      Echo ''   npm run start:broker'',
      Echo [],
      Echo ''3. Clean up resources when done:'',
      Echo (''   az group delete --name '' @ RESOURCE_GROUP_NAME w @ '' --yes --no-wait''),
      Echo []]"

definition config_lines :: "sh_world \<Rightarrow> string list" where
  "config_lines w =
     [''# Azure Key Vault Configuration'',
      ''# Generated on: '' @ cmd_output w Date,
      [],
      ''RESOURCE_GROUP_NAME=\"'' @ RESOURCE_GROUP_NAME w @ ''\"'',
      ''KEY_VAULT_NAME=\"'' @ KEY_VAULT_NAME w @ ''\"'',
      ''KEY_VAULT_URL=\"'' @ vault_url w @ ''\"'',
      ''LOCATION=\"'' @ LOCATION @ ''\"'',
      ''SUBSCRIPTION_ID=\"'' @ SUBSCRIPTION_ID w @ ''\"'',
      ''USER_UPN=\"'' @ CURRENT_USER_UPN w @ ''\"'',
      [],
      ''# Environment variable to set:'',
      ''export AZURE_KEY_VAULT_URL=\"'' @ vault_url w @ ''\"'',
      [],
      ''# To clean up these resources:'',
      ''# az group delete --name '' @ RESOURCE_GROUP_NAME w @ '' --yes --no-wait'']"

definition config_content :: "sh_world \<Rightarrow> string" where
  "config_content w = concat (map (\<lambda>l. l @ [CHR 0x0A]) (config_lines w))"

definition closing_lines :: "sh_world \<Rightarrow> event list" where
  "closing_lines w =
     [WriteFile CONFIG_FILE (config_content w),
      Print SUCCESS (''Configuration saved to: '' @ CONFIG_FILE),
      Print INFO ''You can now test the brokered authentication sample!'']"

definition resources_lines :: "sh_world \<Rightarrow> event list" where
  "resources_lines w =
     [Print INFO (''Resource prefix: '' @ RESOURCE_PREFIX),
      Print INFO (''Random suffix: '' @ RANDOM_SUFFIX w),
      Print INFO (''Location: '' @ LOCATION),
      Echo [],
      Print INFO ''Resources to be created:'',
      Echo (''  - Resource Group: '' @ RESOURCE_GROUP_NAME w),
      Echo (''  - Key Vault: '' @ KEY_VAULT_NAME w),
      Echo []]"

subsection \<open>The end both scripts share: summary and configuration file\<close>

text \<open>
  The file is written by \<^verbatim>\<open>cat\<close> with a redirection, a simple command: when it
  fails the script ends there with its status.
\<close>

definition finish :: "sh_world \<Rightarrow> event list \<Rightarrow> run" where
  "finish w tr =
     errexit w CatConfig (tr @ summary_lines w)
       (\<lambda>tr. \<lparr>exit_code = 0, out = tr @ closing_lines w\<rparr>)"

subsection \<open>First script\<close>

text \<open>
  Creating the group, creating the vault and assigning the role are simple commands, so
  under \<^verbatim>\<open>set -e\<close> the test of \<^verbatim>\<open>$?\<close> that follows each of them is
  reached with status 0 only. The loop that writes the secret always runs.
\<close>

definition secret_section1 :: "sh_world \<Rightarrow> event list" where
  "secret_section1 w = secret_intro @ trace (secret_retry (exhausted_msgs1 w) (secret_set w))"

definition provision1 :: "sh_world \<Rightarrow> (event list \<Rightarrow> run) \<Rightarrow> run" where
  "provision1 w k =
     errexit w OpensslRand [] (\<lambda>tr.
     (let tr = tr @ [Print INFO ''Starting Azure Key Vault setup for brokered authentication sample...'',
                     Print INFO ''Checking Azure CLI authentication...'',
                     Run AzAccountShow]
      in if cmd_status w AzAccountShow \<noteq> 0 then
           \<lparr>exit_code = 1,
            out = tr @ [Print ERROR ''You are not logged into Azure CLI. Please run 'az login' first.'']\<rparr>
         else
     errexit w AzAccountShowId tr (\<lambda>tr.
     errexit w AzAccountShowName tr (\<lambda>tr.
     errexit w AzSignedInUserId tr (\<lambda>tr.
     errexit w AzSignedInUserUpn tr (\<lambda>tr.
     errexit w ReadReply
       (tr @ [Print SUCCESS (''Authenticated as: '' @ CURRENT_USER_UPN w),
              Print INFO (''Using subscription: '' @ SUBSCRIPTION_NAME w @ '' ('' @
                          SUBSCRIPTION_ID w @ '')'')]
           @ resources_lines w) (\<lambda>tr.
     (let tr = tr @ [Echo []]
      in if \<not> confirmed (REPLY w) then
           \<lparr>exit_code = 0, out = tr @ [Print WARNING ''Operation cancelled by user.'']\<rparr>
         else
     errexit w AzGroupCreate
       (tr @ [Print INFO (''Creating resource group: '' @ RESOURCE_GROUP_NAME w @ ''...'')]) (\<lambda>tr.
     errexit w AzKeyvaultCreate
       (tr @ [if cmd_status w AzGroupCreate = 0
              then Print SUCCESS ''Resource group created successfully.''
              else Print ERROR ''Failed to create resource group.'',
              Print INFO (''Creating Key Vault: '' @ KEY_VAULT_NAME w @ ''...'')]) (\<lambda>tr.
     errexit w AzKeyvaultShowId
       (tr @ [if cmd_status w AzKeyvaultCreate = 0
              then Print SUCCESS ''Key Vault created successfully.''
              else Print ERROR ''Failed to create Key Vault.'',
              Print INFO ''Waiting for Key Vault to be fully provisioned...'',
              Sleep 10]) (\<lambda>tr.
     errexit w AzRoleAssignmentCreate
       (tr @ [Print INFO ''Assigning 'Key Vault Secrets Officer' role to current user...'']) (\<lambda>tr.
     k (tr @ [if cmd_status w AzRoleAssignmentCreate = 0
              then Print SUCCESS ''Role assignment completed successfully.''
              else Print ERROR ''Failed to assign role. You may need to assign permissions manually.''])))))))))))))"

definition setup_script1 :: "sh_world \<Rightarrow> run" where
  "setup_script1 w = provision1 w (\<lambda>tr. finish w (tr @ secret_section1 w))"

subsection \<open>Second script\<close>

text \<open>
  The role assignment is tested by \<^verbatim>\<open>if\<close> and sets \<open>RBAC_SUCCESS\<close>; the loop
  that writes the secret runs only when it is \<open>true\<close>.
\<close>

definition role_assignment2 :: "sh_world \<Rightarrow> bool \<times> event list" where
  "role_assignment2 w =
     (if cmd_status w AzRoleAssignmentCreate = 0 then
        (True, [Run AzRoleAssignmentCreate,
                Print SUCCESS ''RBAC role assignment completed successfully.''])
      else
        (False, [Run AzRoleAssignmentCreate,
                 Print ERROR ''RBAC role assignment failed. You may need to assign the role manually:'',
                 Print ERROR (''  '' @ role_command w),
                 Print WARNING ''This could be due to insufficient permissions or subscription limitations.'']))"

definition secret_section2 :: "sh_world \<Rightarrow> bool \<Rightarrow> event list" where
  "secret_section2 w RBAC_SUCCESS =
     (if RBAC_SUCCESS then
        secret_intro @ trace (secret_retry (exhausted_msgs2 w) (secret_set w))
      else map (Print WARNING) (skipped_msgs w))"

definition provision2 :: "sh_world \<Rightarrow> (event list \<Rightarrow> run) \<Rightarrow> run" where
  "provision2 w k =
     errexit w OpensslRand [] (\<lambda>tr.
     (let tr = tr @ [Print INFO ''Starting Azure Key Vault setup for brokered authentication sample...'',
                     Print INFO ''Checking Azure CLI authentication...'',
                     Run AzAccountShow]
      in if cmd_status w AzAccountShow \<noteq> 0 then
           \<lparr>exit_code = 1,
            out = tr @ [Print ERROR ''You are not logged into Azure CLI. Please run 'az login' first.'']\<rparr>
         else
     errexit w AzAccountShowId tr (\<lambda>tr.
     errexit w AzAccountShowName tr (\<lambda>tr.
     errexit w AzAccountShowTenantId tr (\<lambda>tr.
     errexit w AzSignedInUserId tr (\<lambda>tr.
     errexit w AzSignedInUserUpn tr (\<lambda>tr.
     errexit w ReadReply
       (tr @ [Print SUCCESS (''Authenticated as: '' @ CURRENT_USER_UPN w),
              Print INFO (''Using subscription: '' @ SUBSCRIPTION_NAME w @ '' ('' @
                          SUBSCRIPTION_ID w @ '')''),
              Print INFO (''Tenant ID: '' @ TENANT_ID w),
              Print INFO ''Verifying RBAC access...'',
              Run AzRoleDefinitionList]
           @ (if cmd_status w AzRoleDefinitionList \<noteq> 0 then
                [Print WARNING
                   ''Cannot access role definitions. This may indicate insufficient permissions.'']
              else [])
           @ resources_lines w) (\<lambda>tr.
     (let tr = tr @ [Echo []]
      in if \<not> confirmed (REPLY w) then
           \<lparr>exit_code = 0, out = tr @ [Print WARNING ''Operation cancelled by user.'']\<rparr>
         else
     errexit w AzGroupCreate
       (tr @ [Print INFO (''Creating resource group: '' @ RESOURCE_GROUP_NAME w @ ''...'')]) (\<lambda>tr.
     errexit w AzKeyvaultCreate
       (tr @ [if cmd_status w AzGroupCreate = 0
              then Print SUCCESS ''Resource group created successfully.''
              else Print ERROR ''Failed to create resource group.'',
              Print INFO (''Creating Key Vault: '' @ KEY_VAULT_NAME w @ ''...'')]) (\<lambda>tr.
     errexit w AzAccountSet
       (tr @ [if cmd_status w AzKeyvaultCreate = 0
              then Print SUCCESS ''Key Vault created successfully.''
              else Print ERROR ''Failed to create Key Vault.'',
              Print INFO ''Waiting for Key Vault to be fully provisioned...'',
              Sleep 10,
              Print INFO (''Setting subscription context to: '' @ SUBSCRIPTION_ID w @ ''...'')]) (\<lambda>tr.
     errexit w AzKeyvaultShowId
       (tr @ [Print INFO ''Getting Key Vault resource ID...'']) (\<lambda>tr.
     errexit w AzKeyvaultShowIdAgain
       (tr @ [Print INFO (''Key Vault ID: '' @ cmd_output w AzKeyvaultShowId),
              Print INFO (''Current user object ID: '' @ CURRENT_USER_OBJECT_ID w),
              Print INFO ''Assigning 'Key Vault Secrets Officer' role to current user...'']) (\<lambda>tr.
     k (tr @ [Print INFO (''Key Vault ID: '' @ cmd_output w AzKeyvaultShowIdAgain)])))))))))))))))"

definition setup_script2 :: "sh_world \<Rightarrow> run" where
  "setup_script2 w =
     provision2 w (\<lambda>tr.
       (let RBAC_SUCCESS = fst (role_assignment2 w)
        in finish w (tr @ snd (role_assignment2 w) @ secret_section2 w RBAC_SUCCESS)))"

text \<open>The commands that must succeed for a script to reach the step that follows them.\<close>

definition calls_before_secret1 :: "call list" where
  "calls_before_secret1 =
     [OpensslRand, AzAccountShow, AzAccountShowId, AzAccountShowName, AzSignedInUserId,
      AzSignedInUserUpn, ReadReply, AzGroupCreate, AzKeyvaultCreate, AzKeyvaultShowId,
      AzRoleAssignmentCreate]"

definition calls_before_role2 :: "call list" where
  "calls_before_role2 =
     [OpensslRand, AzAccountShow, AzAccountShowId, AzAccountShowName, AzAccountShowTenantId,
      AzSignedInUserId, AzSignedInUserUpn, ReadReply, AzGroupCreate, AzKeyvaultCreate,
      AzAccountSet, AzKeyvaultShowId, AzKeyvaultShowIdAgain]"

definition reaches_secret1 :: "sh_world \<Rightarrow> bool" where
  "reaches_secret1 w = (list_all (\<lambda>c. cmd_status w c = 0) calls_before_secret1 \<and> confirmed (REPLY w))"

definition reaches_role2 :: "sh_world \<Rightarrow> bool" where
  "reaches_role2 w = (list_all (\<lambda>c. cmd_status w c = 0) calls_before_role2 \<and> confirmed (REPLY w))"


section \<open>Notions the statements use\<close>

text \<open>A process that ends with an exception nobody caught.\<close>

fun unhandled :: "process_end \<Rightarrow> bool" where
  "unhandled (Exit n) = False"
| "unhandled (Uncaught e) = True"

text \<open>The delay after \<open>i\<close> runs of the update the scripts write.\<close>

fun delay_after :: "int \<Rightarrow> int \<Rightarrow> int \<Rightarrow> nat \<Rightarrow> int" where
  "delay_after base inc cap 0 = base"
| "delay_after base inc cap (Suc i) = retry_delay_update inc cap (delay_after base inc cap i)"

text \<open>The warnings a trace holds, in order.\<close>

fun warned :: "event list \<Rightarrow> string list" where
  "warned [] = []"
| "warned (Print WARNING m # es) = m # warned es"
| "warned (e # es) = warned es"

text \<open>
  What holds of the loop state at the head of the loop after \<open>n\<close> failed attempts: the
  counter is \<open>n\<close>, the secret write ran \<open>n\<close> times, the waits so far are the first
  \<open>n - 1\<close> delays, and the warnings are there exactly when the budget is used up.
\<close>

definition counted ::
  "int \<Rightarrow> int \<Rightarrow> int \<Rightarrow> int \<Rightarrow> string list \<Rightarrow> retry_state \<Rightarrow> nat \<Rightarrow> bool" where
  "counted maxr base inc cap msgs s n =
     (RETRY_COUNT s = int n \<and> attempts (trace s) = n
      \<and> slept (trace s) = map (delay_after base inc cap) [0 ..< n - 1]
      \<and> RETRY_DELAY s = delay_after base inc cap (n - 1)
      \<and> warned (trace s) = (if 0 < n \<and> int n = maxr then msgs else []))"

definition follows_code :: "int \<Rightarrow> int \<Rightarrow> int \<Rightarrow> retry_state \<Rightarrow> bool" where
  "follows_code base inc cap s =
     (delay_history s = map (delay_after base inc cap) [0 ..< length (delay_history s)])"

text \<open>What a script has printed and run when it reaches the step after its first part.\<close>

definition provision1_out :: "sh_world \<Rightarrow> event list" where
  "provision1_out w = out (provision1 w (\<lambda>tr. \<lparr>exit_code = 0, out = tr\<rparr>))"

definition provision2_out :: "sh_world \<Rightarrow> event list" where
  "provision2_out w = out (provision2 w (\<lambda>tr. \<lparr>exit_code = 0, out = tr\<rparr>))"


section \<open>Concrete inputs\<close>

definition auth_failure_401 :: failure where
  "auth_failure_401 =
     \<lparr>instanceof_Error = True, instanceof_AuthenticationError = True,
      name = ''AuthenticationError'', message = ''token expired'', statusCode = Some 401,
      string_form = ''AuthenticationError: token expired''\<rparr>"

definition rest_error_invalid_url :: failure where
  "rest_error_invalid_url =
     \<lparr>instanceof_Error = True, instanceof_AuthenticationError = False,
      name = ''RestError'', message = ''Invalid URL'', statusCode = None,
      string_form = ''RestError: Invalid URL''\<rparr>"

definition type_error_invalid_url :: failure where
  "type_error_invalid_url =
     \<lparr>instanceof_Error = True, instanceof_AuthenticationError = False,
      name = ''TypeError'', message = ''Invalid URL'', statusCode = None,
      string_form = ''TypeError: Invalid URL''\<rparr>"

definition plain_error_404 :: failure where
  "plain_error_404 =
     \<lparr>instanceof_Error = True, instanceof_AuthenticationError = False,
      name = ''Error'', message = ''not found'', statusCode = Some 404,
      string_form = ''Error: not found''\<rparr>"

definition rest_error_500 :: failure where
  "rest_error_500 =
     \<lparr>instanceof_Error = True, instanceof_AuthenticationError = False,
      name = ''RestError'', message = ''boom'', statusCode = Some 500,
      string_form = ''RestError: boom''\<rparr>"

definition demo_url :: string where
  "demo_url = ''https://demo.vault.azure.net/''"

definition demo_tenant :: string where
  "demo_tenant = ''72f988bf-86f1-41af-91ab-2d7cd011db47''"

definition world_auth_failure :: kv_world where
  "world_auth_failure =
     \<lparr>AZURE_KEY_VAULT_URL = Some demo_url,
      AZURE_TENANT_ID = Some demo_tenant,
      useIdentityPlugin = None,
      new_InteractiveBrowserCredential = (\<lambda>t. None),
      new_SecretClient = (\<lambda>u. None),
      getSecret = (\<lambda>u n. Inl auth_failure_401)\<rparr>"

definition world_service_failure :: kv_world where
  "world_service_failure =
     \<lparr>AZURE_KEY_VAULT_URL = Some demo_url,
      AZURE_TENANT_ID = Some demo_tenant,
      useIdentityPlugin = None,
      new_InteractiveBrowserCredential = (\<lambda>t. None),
      new_SecretClient = (\<lambda>u. None),
      getSecret = (\<lambda>u n. Inl rest_error_500)\<rparr>"

definition world_unset_url :: kv_world where
  "world_unset_url =
     \<lparr>AZURE_KEY_VAULT_URL = None,
      AZURE_TENANT_ID = Some demo_tenant,
      useIdentityPlugin = None,
      new_InteractiveBrowserCredential = (\<lambda>t. None),
      new_SecretClient = (\<lambda>u. None),
      getSecret = (\<lambda>u n. Inl rest_error_500)\<rparr>"

text \<open>
  The endpoint is unset and the tenant of the environment is no tenant identifier: the
  credential constructor refuses it.
\<close>

definition world_bad_tenant :: kv_world where
  "world_bad_tenant =
     \<lparr>AZURE_KEY_VAULT_URL = None,
      AZURE_TENANT_ID = Some ''not a tenant'',
      useIdentityPlugin = None,
      new_InteractiveBrowserCredential =
        (\<lambda>t. if t = Some ''not a tenant'' then Some (new_Error ''Invalid tenant id provided.'')
             else None),
      new_SecretClient = (\<lambda>u. None),
      getSecret = (\<lambda>u n. Inl rest_error_500)\<rparr>"

text \<open>The endpoint is unset and the credential constructor throws whatever it is given.\<close>

definition world_broker_unavailable :: kv_world where
  "world_broker_unavailable =
     \<lparr>AZURE_KEY_VAULT_URL = None,
      AZURE_TENANT_ID = None,
      useIdentityPlugin = None,
      new_InteractiveBrowserCredential = (\<lambda>t. Some (new_Error ''broker unavailable'')),
      new_SecretClient = (\<lambda>u. None),
      getSecret = (\<lambda>u n. Inl rest_error_500)\<rparr>"

definition world_no_subscription :: rm_world where
  "world_no_subscription =
     \<lparr>AZURE_SUBSCRIPTION_ID = None,
      new_DefaultAzureCredential = None,
      new_ResourceManagementClient = (\<lambda>s. None),
      resourceGroups_list = (\<lambda>s. ([], None))\<rparr>"

definition world_listing_fails :: rm_world where
  "world_listing_fails =
     \<lparr>AZURE_SUBSCRIPTION_ID = Some ''sub-1'',
      new_DefaultAzureCredential = None,
      new_ResourceManagementClient = (\<lambda>s. None),
      resourceGroups_list = (\<lambda>s. ([Some ''rg-a''], Some rest_error_500))\<rparr>"

text \<open>An operation that never succeeds, and one that fails \<open>k\<close> times and then succeeds.\<close>

definition always_fails :: "nat \<Rightarrow> bool" where
  "always_fails i = False"

definition fails_then_succeeds :: "nat \<Rightarrow> nat \<Rightarrow> bool" where
  "fails_then_succeeds k i = (k \<le> i)"

definition world_secret_never_set :: sh_world where
  "world_secret_never_set =
     \<lparr>cmd_status = (\<lambda>c. 0), cmd_output = (\<lambda>c. ''a1b2c3''), REPLY = ''y'',
      secret_set = always_fails\<rparr>"

definition world_role_refused :: sh_world where
  "world_role_refused =
     \<lparr>cmd_status = (\<lambda>c. if c = AzRoleAssignmentCreate then 1 else 0),
      cmd_output = (\<lambda>c. ''a1b2c3''), REPLY = ''y'', secret_set = fails_then_succeeds 0\<rparr>"


section \<open>The classifier\<close>

lemma str_includes_Nil [simp]: "str_includes s []"
  by (cases s) simp_all

lemma str_includes_prefix: "str_includes (t @ b) t"
  by (cases t) simp_all

lemma str_includes_append: "str_includes (a @ t @ b) t"
  by (induction a) (simp_all add: str_includes_prefix)

lemma str_includes_suffix: "str_includes (a @ t) t"
  using str_includes_append [of a t "[]"] by simp

lemma auth_failed_msg_includes: "str_includes (auth_failed_msg r) r"
  unfolding auth_failed_msg_def
  using str_includes_suffix [of "lock_sign @ '' Authentication failed: ''" r]
  by (simp only: append_assoc)

lemma msg_service_includes_code: "str_includes (msg_service (Some code) body) (show_int code)"
  unfolding msg_service_def js_num_def option.case
  using str_includes_append
      [of "warning_sign @ '' Azure Key Vault error (''" "show_int code" "''): '' @ body"]
  by (simp only: append_assoc)

lemma msg_service_includes_body: "str_includes (msg_service code body) body"
  unfolding msg_service_def
  using str_includes_suffix
      [of "warning_sign @ '' Azure Key Vault error ('' @ js_num code @ ''): ''" body]
  by (simp only: append_assoc)

text \<open>
  Claim C2. A failure that is an authentication failure is classified as
  AuthenticationFailed, whatever else it carries (a status code 401 included), and the
  line printed for it contains its reason text: the first rung of the ladder wins.
\<close>

theorem auth_failure_first:
  assumes "instanceof_AuthenticationError error"
  shows "fst (classify error) = exit_status AuthenticationFailed
       \<and> snd (classify error) = auth_failed_msg (message error)
       \<and> str_includes (snd (classify error)) (message error)"
  using assms by (simp add: classify_def auth_failed_msg_includes)

text \<open>An authentication failure that also carries the status code 401.\<close>

theorem auth_failure_first_witness:
  "instanceof_AuthenticationError auth_failure_401
   \<and> statusCode auth_failure_401 = Some 401
   \<and> fst (classify auth_failure_401) = exit_status AuthenticationFailed
   \<and> snd (classify auth_failure_401) = auth_failed_msg (message auth_failure_401)
   \<and> str_includes (snd (classify auth_failure_401)) (message auth_failure_401)"
proof -
  have h: "instanceof_AuthenticationError auth_failure_401"
    by (simp add: auth_failure_401_def)
  have c: "statusCode auth_failure_401 = Some 401"
    by (simp add: auth_failure_401_def)
  show ?thesis
    using h c auth_failure_first [OF h] by blast
qed

text \<open>
  A \<open>RestError\<close> without a status code whose message is \<open>Invalid URL\<close> enters the
  second rung, finds no truthy status code there and leaves the ladder: it is reported as
  an unexpected error, not as an invalid configuration.
\<close>

theorem invalid_url_rest_error_counterexample:
  "\<not> instanceof_AuthenticationError rest_error_invalid_url
   \<and> statusCode rest_error_invalid_url = None
   \<and> str_includes (message rest_error_invalid_url) ''Invalid URL''
   \<and> name rest_error_invalid_url = ''RestError''
   \<and> fst (classify rest_error_invalid_url) = exit_status UnexpectedError
   \<and> fst (classify rest_error_invalid_url) \<noteq> exit_status InvalidConfiguration"
  by (simp add: rest_error_invalid_url_def classify_def truthy_def unexpected_def)

text \<open>The same holds of every \<open>RestError\<close> whose status code is missing or zero.\<close>

lemma rest_error_without_status:
  assumes "instanceof_Error error" and "name error = ''RestError''"
    and "\<not> instanceof_AuthenticationError error" and "\<not> truthy (statusCode error)"
  shows "classify error = (exit_status UnexpectedError, msg_unexpected (message error))"
  using assms by (simp add: classify_def unexpected_def)

text \<open>
  Claim C3, as amended. An \<open>Error\<close> that is no authentication failure and whose name
  is not \<open>RestError\<close> is classified as InvalidConfiguration when its message contains
  \<open>Invalid URL\<close>.
\<close>

theorem invalid_url_classified:
  assumes "instanceof_Error error" and "\<not> instanceof_AuthenticationError error"
    and "name error \<noteq> ''RestError''" and "str_includes (message error) ''Invalid URL''"
  shows "classify error = (exit_status InvalidConfiguration, msg_invalid_url)"
  using assms by (simp add: classify_def)

theorem invalid_url_classified_witness:
  "instanceof_Error type_error_invalid_url
   \<and> \<not> instanceof_AuthenticationError type_error_invalid_url
   \<and> name type_error_invalid_url \<noteq> ''RestError''
   \<and> str_includes (message type_error_invalid_url) ''Invalid URL''
   \<and> classify type_error_invalid_url = (4, msg_invalid_url)"
  using invalid_url_classified [of type_error_invalid_url]
  by (simp add: type_error_invalid_url_def)

text \<open>
  The status code is looked at only inside the rung for \<open>RestError\<close>: an \<open>Error\<close>
  of another name that carries the status code 404 is reported as an unexpected error.
\<close>

theorem status_code_without_kind_counterexample:
  "statusCode plain_error_404 = Some 404
   \<and> \<not> instanceof_AuthenticationError plain_error_404
   \<and> fst (classify plain_error_404) = exit_status UnexpectedError
   \<and> fst (classify plain_error_404) \<noteq> exit_status ServiceRequestFailed"
  by (simp add: plain_error_404_def classify_def unexpected_def)

text \<open>
  Claim C4, as amended. An \<open>Error\<close> named \<open>RestError\<close> that is no authentication
  failure and carries a status code other than zero is classified as ServiceRequestFailed;
  the line printed is the one for 401, for 403 or for 404, and for any other code the
  general line, which contains the code in decimal and the text of the failure.
\<close>

theorem service_failure_classified:
  assumes "instanceof_Error error" and "name error = ''RestError''"
    and "\<not> instanceof_AuthenticationError error"
    and "statusCode error = Some code" and "code \<noteq> 0"
  shows "fst (classify error) = exit_status ServiceRequestFailed
       \<and> snd (classify error) =
           (if code = 401 then msg_401 else if code = 403 then msg_403
            else if code = 404 then msg_404 else msg_service (Some code) (message error))
       \<and> str_includes (msg_service (Some code) (message error)) (show_int code)
       \<and> str_includes (msg_service (Some code) (message error)) (message error)"
  using assms
  by (simp add: classify_def truthy_def msg_service_includes_code msg_service_includes_body)

theorem service_failure_classified_witness:
  "instanceof_Error rest_error_500 \<and> name rest_error_500 = ''RestError''
   \<and> \<not> instanceof_AuthenticationError rest_error_500
   \<and> statusCode rest_error_500 = Some 500 \<and> (500::int) \<noteq> 0
   \<and> fst (classify rest_error_500) = 3
   \<and> snd (classify rest_error_500) = msg_service (Some 500) ''boom''"
  using service_failure_classified [of rest_error_500 500]
  by (simp add: rest_error_500_def)


section \<open>The samples as processes\<close>

lemma placeholder_has_marker: "str_includes placeholder_url ''<your-key-vault-name>''"
  by (simp add: placeholder_url_def)

lemma remote_calls_placeholder: "remote_calls placeholder_lines = []"
  by (simp add: remote_calls_def placeholder_lines_def)

text \<open>
  Claim C1. The exit status of the process is the one that stands for the outcome code.
  The first sample does so. In the second, \<open>main\<close> resolves with the number, and
  the callback that ends the process ignores it: when the secret retrieval fails with an
  authentication failure \<open>main\<close> gives 2 and the process exits with 0, and a service
  failure (3) ends in 0 as well.
\<close>

theorem exit_status_lost:
  "fst (broker_main world_auth_failure) = Inr (exit_status AuthenticationFailed)
   \<and> fst (broker_main_script world_auth_failure) = Exit 0
   \<and> fst (broker_script world_auth_failure) = Exit (exit_status AuthenticationFailed)
   \<and> fst (broker_main world_service_failure) = Inr (exit_status ServiceRequestFailed)
   \<and> fst (broker_main_script world_service_failure) = Exit 0"
  by (simp add: broker_main_script_def broker_main_def broker_script_def broker_try_def
      world_auth_failure_def world_service_failure_def vaultUri_of_def demo_url_def
      catch_return_def catch_exit_def classify_def auth_failure_401_def rest_error_500_def
      truthy_def Let_def)

text \<open>
  The loss does not depend on the failure: the second sample ends with status 0 whatever
  \<open>main\<close> resolves with, while the first ends with the number of the ladder.
\<close>

lemma broker_main_script_exit:
  "useIdentityPlugin w = None \<Longrightarrow> fst (broker_main w) = Inr n \<Longrightarrow>
   fst (broker_main_script w) = Exit 0"
  by (simp add: broker_main_script_def)

lemma broker_script_exit:
  assumes "useIdentityPlugin w = None" and "new_InteractiveBrowserCredential w None = None"
    and "\<not> str_includes (vaultUri_of (AZURE_KEY_VAULT_URL w)) ''<your-key-vault-name>''"
    and "new_SecretClient w (vaultUri_of (AZURE_KEY_VAULT_URL w)) = None"
    and "getSecret w (vaultUri_of (AZURE_KEY_VAULT_URL w)) ''MySecret'' = Inl e"
  shows "fst (broker_script w) = Exit (fst (classify e))"
  using assms
  by (simp add: broker_script_def broker_try_def catch_exit_def Let_def)

lemma broker_main_exit:
  assumes "new_InteractiveBrowserCredential w (AZURE_TENANT_ID w) = None"
    and "\<not> str_includes (vaultUri_of (AZURE_KEY_VAULT_URL w)) ''<your-key-vault-name>''"
    and "new_SecretClient w (vaultUri_of (AZURE_KEY_VAULT_URL w)) = None"
    and "getSecret w (vaultUri_of (AZURE_KEY_VAULT_URL w)) ''MySecret'' = Inl e"
  shows "fst (broker_main w) = Inr (fst (classify e))"
  using assms
  by (simp add: broker_main_def catch_return_def Let_def)

text \<open>
  Both samples construct the credential before they look at the endpoint. With the endpoint
  unset, the second sample given a tenant the constructor refuses catches that failure and
  gives the code of an unexpected error, and the first sample, whose constructor call has
  no handler around it, ends with the exception uncaught.
\<close>

theorem placeholder_after_credential_counterexample:
  "vaultUri_of (AZURE_KEY_VAULT_URL world_bad_tenant) = placeholder_url
   \<and> fst (broker_main world_bad_tenant) = Inr (exit_status UnexpectedError)
   \<and> fst (broker_main world_bad_tenant) \<noteq> Inr (exit_status InvalidConfiguration)
   \<and> vaultUri_of (AZURE_KEY_VAULT_URL world_broker_unavailable) = placeholder_url
   \<and> fst (broker_script world_broker_unavailable) = Uncaught (new_Error ''broker unavailable'')
   \<and> fst (broker_script world_broker_unavailable) \<noteq> Exit (exit_status InvalidConfiguration)"
  by (simp add: world_bad_tenant_def world_broker_unavailable_def vaultUri_of_def broker_main_def
      broker_script_def catch_return_def classify_def new_Error_def unexpected_def)

lemma remote_calls_broker_try:
  "vaultUri_of (AZURE_KEY_VAULT_URL w) = placeholder_url \<Longrightarrow> remote_calls (snd (broker_try w)) = []"
  using placeholder_has_marker
  by (simp add: broker_try_def Let_def remote_calls_def placeholder_lines_def)

lemma remote_calls_broker_script:
  "vaultUri_of (AZURE_KEY_VAULT_URL w) = placeholder_url \<Longrightarrow>
   remote_calls (snd (broker_script w)) = []"
  using remote_calls_broker_try [of w]
  by (simp add: broker_script_def remote_calls_def split: option.split)

lemma remote_calls_broker_main:
  "vaultUri_of (AZURE_KEY_VAULT_URL w) = placeholder_url \<Longrightarrow>
   remote_calls (snd (broker_main w)) = []"
  using placeholder_has_marker
  by (simp add: broker_main_def Let_def remote_calls_def placeholder_lines_def catch_return_def
      split: option.split)

lemma remote_calls_broker_main_script:
  "vaultUri_of (AZURE_KEY_VAULT_URL w) = placeholder_url \<Longrightarrow>
   remote_calls (snd (broker_main_script w)) = []"
  using remote_calls_broker_main [of w]
  by (simp add: broker_main_script_def remote_calls_def done_line_def
      split: option.split sum.split)

text \<open>
  Claim C9, as amended. When the endpoint is the placeholder address (as it is when the
  variable is unset or empty), neither sample constructs a secrets client or retrieves a
  secret, whatever else happens. When in addition the steps before the endpoint test do not
  throw (plugin registration and credential construction in the first sample, credential
  construction in the second), the first sample exits with the code of
  InvalidConfiguration and \<open>main\<close> of the second resolves with it, after printing the line
  with the address and the two lines that ask for the variable.
\<close>

theorem placeholder_endpoint:
  assumes "vaultUri_of (AZURE_KEY_VAULT_URL w) = placeholder_url"
  shows "(useIdentityPlugin w = None \<and> new_InteractiveBrowserCredential w None = None \<longrightarrow>
            broker_script w =
              (Exit (exit_status InvalidConfiguration),
               [Call_useIdentityPlugin, New_InteractiveBrowserCredential None,
                ConsoleLog ''Using Key Vault URL: https://<your-key-vault-name>.vault.azure.net/'',
                ConsoleError (cross_mark @
                  '' Please set the AZURE_KEY_VAULT_URL environment variable or update the vaultUri in the code.''),
                ConsoleError
                  ''   Example: export AZURE_KEY_VAULT_URL=\"https://your-vault-name.vault.azure.net/\"'']))
       \<and> (new_InteractiveBrowserCredential w (AZURE_TENANT_ID w) = None \<longrightarrow>
            broker_main w =
              (Inr (exit_status InvalidConfiguration),
               [New_InteractiveBrowserCredential (AZURE_TENANT_ID w),
                ConsoleLog ''Using Key Vault URL: https://<your-key-vault-name>.vault.azure.net/'',
                ConsoleError (cross_mark @
                  '' Please set the AZURE_KEY_VAULT_URL environment variable or update the vaultUri in the code.''),
                ConsoleError
                  ''   Example: export AZURE_KEY_VAULT_URL=\"https://your-vault-name.vault.azure.net/\"'']))
       \<and> remote_calls (snd (broker_script w)) = []
       \<and> remote_calls (snd (broker_main w)) = []
       \<and> remote_calls (snd (broker_main_script w)) = []
       \<and> vaultUri_of None = ''https://<your-key-vault-name>.vault.azure.net/''
       \<and> vaultUri_of (Some []) = ''https://<your-key-vault-name>.vault.azure.net/''"
proof -
  have a: "useIdentityPlugin w = None \<and> new_InteractiveBrowserCredential w None = None \<longrightarrow>
            broker_script w =
              (Exit (exit_status InvalidConfiguration),
               [Call_useIdentityPlugin, New_InteractiveBrowserCredential None,
                ConsoleLog ''Using Key Vault URL: https://<your-key-vault-name>.vault.azure.net/'',
                ConsoleError (cross_mark @
                  '' Please set the AZURE_KEY_VAULT_URL environment variable or update the vaultUri in the code.''),
                ConsoleError
                  ''   Example: export AZURE_KEY_VAULT_URL=\"https://your-vault-name.vault.azure.net/\"''])"
    using assms placeholder_has_marker
    by (simp add: broker_script_def broker_try_def Let_def placeholder_lines_def
        placeholder_url_def)
  have b: "new_InteractiveBrowserCredential w (AZURE_TENANT_ID w) = None \<longrightarrow>
            broker_main w =
              (Inr (exit_status InvalidConfiguration),
               [New_InteractiveBrowserCredential (AZURE_TENANT_ID w),
                ConsoleLog ''Using Key Vault URL: https://<your-key-vault-name>.vault.azure.net/'',
                ConsoleError (cross_mark @
                  '' Please set the AZURE_KEY_VAULT_URL environment variable or update the vaultUri in the code.''),
                ConsoleError
                  ''   Example: export AZURE_KEY_VAULT_URL=\"https://your-vault-name.vault.azure.net/\"''])"
    using assms placeholder_has_marker
    by (simp add: broker_main_def Let_def placeholder_lines_def placeholder_url_def)
  have c: "vaultUri_of None = ''https://<your-key-vault-name>.vault.azure.net/''"
    "vaultUri_of (Some []) = ''https://<your-key-vault-name>.vault.azure.net/''"
    by (simp_all add: vaultUri_of_def placeholder_url_def)
  show ?thesis
    using a b c remote_calls_broker_script [OF assms] remote_calls_broker_main [OF assms]
      remote_calls_broker_main_script [OF assms]
    by blast
qed

text \<open>The variable is unset and the credential is constructed in both samples.\<close>

theorem placeholder_endpoint_witness:
  "vaultUri_of (AZURE_KEY_VAULT_URL world_unset_url) = placeholder_url
   \<and> useIdentityPlugin world_unset_url = None
   \<and> new_InteractiveBrowserCredential world_unset_url None = None
   \<and> new_InteractiveBrowserCredential world_unset_url (AZURE_TENANT_ID world_unset_url) = None
   \<and> fst (broker_script world_unset_url) = Exit 4
   \<and> fst (broker_main world_unset_url) = Inr 4
   \<and> remote_calls (snd (broker_script world_unset_url)) = []
   \<and> remote_calls (snd (broker_main world_unset_url)) = []"
proof -
  have h: "vaultUri_of (AZURE_KEY_VAULT_URL world_unset_url) = placeholder_url"
    by (simp add: world_unset_url_def vaultUri_of_def)
  have p: "useIdentityPlugin world_unset_url = None"
    "new_InteractiveBrowserCredential world_unset_url None = None"
    "new_InteractiveBrowserCredential world_unset_url (AZURE_TENANT_ID world_unset_url) = None"
    by (simp_all add: world_unset_url_def)
  note t = placeholder_endpoint [OF h]
  from t p have "fst (broker_script world_unset_url) = Exit (exit_status InvalidConfiguration)"
    by simp
  moreover from t p have "fst (broker_main world_unset_url) = Inr (exit_status InvalidConfiguration)"
    by simp
  moreover from t have "remote_calls (snd (broker_script world_unset_url)) = []"
    by blast
  moreover from t have "remote_calls (snd (broker_main world_unset_url)) = []"
    by blast
  ultimately show ?thesis
    using h p by simp
qed

text \<open>
  With no subscription identifier the listing sample throws at the top level of the
  module, before \<open>main\<close> and its handler exist: the exception is caught by nobody.
  Likewise the first credential sample constructs its credential at the top level, before
  its \<^verbatim>\<open>try\<close> statement: what the constructor throws is caught by nobody.
\<close>

theorem unset_subscription_counterexample:
  "AZURE_SUBSCRIPTION_ID world_no_subscription = None
   \<and> list_script world_no_subscription =
       (Uncaught (new_Error ''AZURE_SUBSCRIPTION_ID environment variable is not set.''), [])
   \<and> unhandled (fst (list_script world_no_subscription))
   \<and> fst (broker_script world_broker_unavailable) = Uncaught (new_Error ''broker unavailable'')
   \<and> unhandled (fst (broker_script world_broker_unavailable))"
  by (simp add: list_script_def world_no_subscription_def broker_script_def
      world_broker_unavailable_def)

text \<open>
  In general: what the plugin registration throws ends both credential samples uncaught,
  and what the credential constructor throws ends the first one uncaught.
\<close>

lemma plugin_failure_uncaught:
  "useIdentityPlugin w = Some e \<Longrightarrow>
   fst (broker_script w) = Uncaught e \<and> fst (broker_main_script w) = Uncaught e"
  by (simp add: broker_script_def broker_main_script_def)

lemma credential_failure_uncaught:
  "useIdentityPlugin w = None \<Longrightarrow> new_InteractiveBrowserCredential w None = Some e \<Longrightarrow>
   fst (broker_script w) = Uncaught e"
  by (simp add: broker_script_def)

lemma credential_failure_classified:
  "new_InteractiveBrowserCredential w (AZURE_TENANT_ID w) = Some e \<Longrightarrow>
   fst (broker_main w) = Inr (fst (classify e))"
  by (simp add: broker_main_def catch_return_def)

lemma broker_try_exits: "\<exists>n. fst (broker_try w) = Exit n"
  by (simp add: broker_try_def catch_exit_def Let_def split: option.split sum.split)

lemma broker_script_handled:
  "useIdentityPlugin w = None \<Longrightarrow> new_InteractiveBrowserCredential w None = None \<Longrightarrow>
   \<exists>n. fst (broker_script w) = Exit n"
  using broker_try_exits [of w] by (simp add: broker_script_def)

lemma broker_main_resolves: "\<exists>n. fst (broker_main w) = Inr n"
  by (simp add: broker_main_def catch_return_def Let_def split: option.split sum.split)

lemma broker_main_script_handled:
  "useIdentityPlugin w = None \<Longrightarrow> fst (broker_main_script w) = Exit 0"
  using broker_main_resolves [of w] by (auto simp: broker_main_script_def)

lemma list_script_handled:
  "AZURE_SUBSCRIPTION_ID w = Some s \<Longrightarrow> s \<noteq> [] \<Longrightarrow> fst (list_script w) = Exit 0"
  by (simp add: list_script_def Let_def split: sum.split)

lemma list_script_prints_failure:
  "AZURE_SUBSCRIPTION_ID w = Some s \<Longrightarrow> s \<noteq> [] \<Longrightarrow> fst (list_main w s) = Inl e \<Longrightarrow>
   last (snd (list_script w)) = ConsoleErrorValue e"
  by (simp add: list_script_def Let_def)

text \<open>
  Claim C8, as amended. Every failure raised inside the handler of a sample is caught
  there. In the first credential sample the handler is the \<^verbatim>\<open>try\<close> statement: once
  the plugin is registered and the credential constructed, the process ends with an exit
  status. In the second the handler is the \<^verbatim>\<open>try\<close> block of \<open>main\<close>, which holds
  the credential construction too: \<open>main\<close> never rejects, and once the plugin is
  registered the process ends with an exit status. In the listing sample the handler is
  the one on \<open>main\<close>: once the subscription identifier is set and not empty, whatever
  \<open>main\<close> rejects with is printed and the process ends with status 0.
\<close>

theorem failures_caught_inside:
  "(useIdentityPlugin kw = None \<and> new_InteractiveBrowserCredential kw None = None \<longrightarrow>
      (\<exists>n. fst (broker_script kw) = Exit n))
   \<and> (\<exists>n. fst (broker_main kw) = Inr n)
   \<and> (useIdentityPlugin kw = None \<longrightarrow> fst (broker_main_script kw) = Exit 0)
   \<and> (AZURE_SUBSCRIPTION_ID rw = Some s \<and> s \<noteq> [] \<longrightarrow>
        fst (list_script rw) = Exit 0
        \<and> (\<forall>e. fst (list_main rw s) = Inl e \<longrightarrow>
              last (snd (list_script rw)) = ConsoleErrorValue e))"
  using broker_script_handled broker_main_script_handled broker_main_resolves
    list_script_handled list_script_prints_failure
  by blast

text \<open>
  The secret retrieval fails with a service failure in the credential samples, and the
  listing fails after one group.
\<close>

theorem failures_caught_inside_witness:
  "useIdentityPlugin world_service_failure = None
   \<and> new_InteractiveBrowserCredential world_service_failure None = None
   \<and> AZURE_SUBSCRIPTION_ID world_listing_fails = Some ''sub-1'' \<and> ''sub-1'' \<noteq> []
   \<and> fst (list_main world_listing_fails ''sub-1'') = Inl rest_error_500
   \<and> fst (broker_script world_service_failure) = Exit 3
   \<and> fst (broker_main world_service_failure) = Inr 3
   \<and> fst (broker_main_script world_service_failure) = Exit 0
   \<and> fst (list_script world_listing_fails) = Exit 0
   \<and> last (snd (list_script world_listing_fails)) = ConsoleErrorValue rest_error_500"
proof -
  have p: "useIdentityPlugin world_service_failure = None"
    "new_InteractiveBrowserCredential world_service_failure None = None"
    by (simp_all add: world_service_failure_def)
  have h: "AZURE_SUBSCRIPTION_ID world_listing_fails = Some ''sub-1'' \<and> ''sub-1'' \<noteq> []"
    by (simp add: world_listing_fails_def)
  have e: "fst (list_main world_listing_fails ''sub-1'') = Inl rest_error_500"
    by (simp add: world_listing_fails_def list_main_def Let_def)
  have v: "fst (broker_script world_service_failure) = Exit 3"
    "fst (broker_main world_service_failure) = Inr 3"
    by (simp_all add: broker_script_def broker_try_def broker_main_def world_service_failure_def
        vaultUri_of_def demo_url_def catch_exit_def catch_return_def classify_def
        rest_error_500_def truthy_def Let_def)
  note t = failures_caught_inside [of world_service_failure world_listing_fails "''sub-1''"]
  from t p have "fst (broker_main_script world_service_failure) = Exit 0"
    by blast
  moreover from t h have "fst (list_script world_listing_fails) = Exit 0"
    by blast
  moreover from t h e have "last (snd (list_script world_listing_fails)) = ConsoleErrorValue rest_error_500"
    by blast
  ultimately show ?thesis
    using p h e v by blast
qed


section \<open>The retry loop\<close>

lemma slept_append [simp]: "slept (a @ b) = slept a @ slept b"
  by (induction a rule: slept.induct) simp_all

lemma warned_append [simp]: "warned (a @ b) = warned a @ warned b"
  by (induction a rule: warned.induct) simp_all

lemma attempts_append [simp]: "attempts (a @ b) = attempts a + attempts b"
  by (simp add: attempts_def)

lemma attempts_simps [simp]:
  "attempts [] = 0"
  "attempts (Run AzKeyvaultSecretSet # es) = Suc (attempts es)"
  "attempts (Print l m # es) = attempts es"
  "attempts (Echo m # es) = attempts es"
  "attempts (Sleep d # es) = attempts es"
  "attempts (WriteFile f c # es) = attempts es"
  "c' \<noteq> AzKeyvaultSecretSet \<Longrightarrow> attempts (Run c' # es) = attempts es"
  by (simp_all add: attempts_def)

lemma slept_warnings [simp]: "slept (map (Print l) msgs) = []"
  by (induction msgs) simp_all

lemma attempts_warnings [simp]: "attempts (map (Print l) msgs) = 0"
  by (induction msgs) simp_all

lemma warned_warnings [simp]: "warned (map (Print WARNING) msgs) = msgs"
  by (induction msgs) simp_all

lemma attempts_wait_step [simp]:
  "attempts (trace (wait_step maxr inc cap s)) = attempts (trace s)"
  by (simp add: wait_step_def)

lemma counted_init: "counted maxr base inc cap msgs (retry_init base) 0"
  by (simp add: counted_def retry_init_def)

lemma upt_pred_Suc: "0 < n \<Longrightarrow> [0 ..< n] = [0 ..< n - 1] @ [n - 1]"
  by (cases n) simp_all

lemma counted_failure:
  assumes "counted maxr base inc cap msgs s n" and "int n < maxr"
  shows "counted maxr base inc cap msgs (on_failure maxr msgs (wait_step maxr inc cap s)) (Suc n)"
proof (cases n)
  case 0
  with assms show ?thesis
    by (simp add: counted_def on_failure_def wait_step_def)
next
  case (Suc m)
  with assms show ?thesis
    by (simp add: counted_def on_failure_def wait_step_def)
qed

lemma counted_success:
  assumes "counted maxr base inc cap msgs s n" and "int n < maxr"
  shows "attempts (trace (on_success (wait_step maxr inc cap s))) = Suc n"
    and "slept (trace (on_success (wait_step maxr inc cap s))) = map (delay_after base inc cap) [0 ..< n]"
    and "warned (trace (on_success (wait_step maxr inc cap s))) = []"
    and "RETRY_COUNT (on_success (wait_step maxr inc cap s)) = int n"
    and "\<exists>pre. trace (on_success (wait_step maxr inc cap s)) =
           pre @ [Run AzKeyvaultSecretSet, Print SUCCESS ''Sample secret created successfully!'']"
  using assms by (cases n; simp add: counted_def on_success_def wait_step_def)+

lemma retry_loop_success:
  "RETRY_COUNT s < maxr \<Longrightarrow> op (attempts (trace s)) \<Longrightarrow>
   retry_loop maxr inc cap msgs op s = on_success (wait_step maxr inc cap s)"
  by (subst retry_loop.simps) simp

lemma retry_loop_failure:
  "RETRY_COUNT s < maxr \<Longrightarrow> \<not> op (attempts (trace s)) \<Longrightarrow>
   retry_loop maxr inc cap msgs op s =
   retry_loop maxr inc cap msgs op (on_failure maxr msgs (wait_step maxr inc cap s))"
  by (subst retry_loop.simps) simp

lemma retry_loop_done:
  "\<not> RETRY_COUNT s < maxr \<Longrightarrow> retry_loop maxr inc cap msgs op s = s"
  by (subst retry_loop.simps) simp

lemma loop_success_after:
  assumes "counted maxr base inc cap msgs s n" and "int (n + k) < maxr"
    and "\<forall>i<k. \<not> op (n + i)" and "op (n + k)"
  shows "attempts (trace (retry_loop maxr inc cap msgs op s)) = Suc (n + k)
       \<and> slept (trace (retry_loop maxr inc cap msgs op s)) = map (delay_after base inc cap) [0 ..< n + k]
       \<and> warned (trace (retry_loop maxr inc cap msgs op s)) = []
       \<and> (\<exists>pre. trace (retry_loop maxr inc cap msgs op s) =
             pre @ [Run AzKeyvaultSecretSet, Print SUCCESS ''Sample secret created successfully!''])"
  using assms
proof (induction k arbitrary: s n)
  case 0
  then have c: "RETRY_COUNT s < maxr" "op (attempts (trace s))"
    by (simp_all add: counted_def)
  have n: "int n < maxr" using 0 by simp
  show ?case
    using counted_success [OF "0.prems"(1) n]
    by (simp add: retry_loop_success [where op = op and s = s, OF c])
next
  case (Suc k)
  have n: "int n < maxr" using Suc.prems by simp
  have c: "RETRY_COUNT s < maxr" "\<not> op (attempts (trace s))"
    using Suc.prems by (auto simp: counted_def)
  have step: "counted maxr base inc cap msgs (on_failure maxr msgs (wait_step maxr inc cap s)) (Suc n)"
    by (rule counted_failure [OF Suc.prems(1) n])
  have "\<forall>i<k. \<not> op (Suc n + i)"
    using Suc.prems(3) by (metis add_Suc_shift Suc_less_eq)
  moreover have "op (Suc n + k)" using Suc.prems(4) by simp
  moreover have "int (Suc n + k) < maxr" using Suc.prems(2) by simp
  ultimately show ?case
    using Suc.IH [OF step] by (simp add: retry_loop_failure [where op = op and s = s, OF c])
qed

lemma loop_exhausts:
  assumes "counted maxr base inc cap msgs s n" and "maxr = int N" and "n \<le> N"
    and "\<forall>i. \<not> op i"
  shows "counted maxr base inc cap msgs (retry_loop maxr inc cap msgs op s) N"
  using assms
proof (induction "N - n" arbitrary: s n)
  case 0
  then have "n = N" by simp
  with 0 show ?case by (simp add: retry_loop_done counted_def)
next
  case (Suc d)
  have n: "int n < maxr" using Suc by simp
  have c: "RETRY_COUNT s < maxr" "\<not> op (attempts (trace s))"
    using Suc.prems n by (auto simp: counted_def)
  have step: "counted maxr base inc cap msgs (on_failure maxr msgs (wait_step maxr inc cap s)) (Suc n)"
    by (rule counted_failure [OF Suc.prems(1) n])
  have "d = N - Suc n" using Suc.hyps(2) by simp
  moreover have "Suc n \<le> N" using Suc.hyps(2) by simp
  ultimately show ?case
    using Suc.hyps(1) [OF _ step Suc.prems(2) _ Suc.prems(4)]
    by (simp add: retry_loop_failure [where op = op and s = s, OF c])
qed

lemma loop_exhausts_last:
  assumes "RETRY_COUNT s = int n" and "maxr = int N" and "n < N" and "\<forall>i. \<not> op i"
  shows "\<exists>pre. trace (retry_loop maxr inc cap msgs op s) = pre @ map (Print WARNING) msgs"
  using assms
proof (induction "N - n" arbitrary: s n)
  case 0
  then show ?case by simp
next
  case (Suc d)
  have c: "RETRY_COUNT s < maxr" "\<not> op (attempts (trace s))"
    using Suc.prems by auto
  let ?s' = "on_failure maxr msgs (wait_step maxr inc cap s)"
  have cnt: "RETRY_COUNT ?s' = int (Suc n)"
    using Suc.prems by (simp add: on_failure_def wait_step_def)
  show ?case
  proof (cases "Suc n = N")
    case True
    then have "\<not> RETRY_COUNT ?s' < maxr" using cnt Suc.prems by simp
    then have "retry_loop maxr inc cap msgs op s = ?s'"
      by (simp add: retry_loop_failure [where op = op and s = s, OF c] retry_loop_done)
    moreover have "wait_step maxr inc cap s = wait_step maxr inc cap s" ..
    moreover have "RETRY_COUNT (wait_step maxr inc cap s) + 1 = maxr"
      using True Suc.prems by (simp add: wait_step_def)
    ultimately show ?thesis
      by (simp add: on_failure_def)
  next
    case False
    then have "Suc n < N" using Suc.prems by simp
    moreover have "d = N - Suc n" using Suc.hyps(2) by simp
    ultimately show ?thesis
      using Suc.hyps(1) [OF _ cnt Suc.prems(2) _ Suc.prems(4)]
      by (simp add: retry_loop_failure [where op = op and s = s, OF c])
  qed
qed

lemma delay_after_saturating:
  assumes "0 \<le> inc" and "base \<le> cap" and "inc dvd cap - base"
  shows "delay_after base inc cap i = saturating_delay base inc cap i
       \<and> delay_after base inc cap i \<le> cap \<and> inc dvd cap - delay_after base inc cap i"
proof (induction i)
  case 0
  show ?case using assms by simp
next
  case (Suc i)
  let ?d = "delay_after base inc cap i"
  from Suc have eq: "?d = saturating_delay base inc cap i" by blast
  from Suc have le: "?d \<le> cap" by blast
  from Suc have dv: "inc dvd cap - ?d" by blast
  show ?case
  proof (cases "?d < cap")
    case True
    then have "0 < cap - ?d" by simp
    with dv have "inc \<le> cap - ?d" by (simp add: zdvd_imp_le)
    moreover have "inc dvd cap - (?d + inc)"
      using dv by (metis diff_diff_eq dvd_diff dvd_refl)
    ultimately show ?thesis
      using True eq by (simp add: retry_delay_update_def)
  next
    case False
    with le have "?d = cap" by simp
    then show ?thesis
      using eq assms(1) by (simp add: retry_delay_update_def)
  qed
qed

lemma saturating_delay_le_cap: "base \<le> cap \<Longrightarrow> saturating_delay base inc cap i \<le> cap"
  by (induction i) simp_all

lemma saturating_delay_step:
  "0 \<le> inc \<Longrightarrow> base \<le> cap \<Longrightarrow>
   saturating_delay base inc cap i \<le> saturating_delay base inc cap (Suc i)"
  using saturating_delay_le_cap [of base cap inc i] by simp

lemma saturating_delay_mono:
  assumes "0 \<le> inc" and "base \<le> cap" and "i \<le> j"
  shows "saturating_delay base inc cap i \<le> saturating_delay base inc cap j"
  using assms(3)
proof (induction j)
  case 0
  then show ?case by simp
next
  case (Suc j)
  show ?case
  proof (cases "i = Suc j")
    case True
    then show ?thesis by simp
  next
    case False
    with Suc.prems have "i \<le> j" by simp
    then have "saturating_delay base inc cap i \<le> saturating_delay base inc cap j"
      by (rule Suc.IH)
    also have "\<dots> \<le> saturating_delay base inc cap (Suc j)"
      by (rule saturating_delay_step [OF assms(1,2)])
    finally show ?thesis .
  qed
qed

lemma sorted_saturating:
  assumes "0 \<le> inc" and "base \<le> cap"
  shows "sorted (map (saturating_delay base inc cap) [0 ..< n])"
  by (simp add: sorted_iff_nth_mono saturating_delay_mono [OF assms])

lemma delay_history_last: "delay_history s \<noteq> [] \<and> last (delay_history s) = RETRY_DELAY s"
  by (simp add: delay_history_def)

lemma follows_code_init: "follows_code base inc cap (retry_init base)"
  by (simp add: follows_code_def delay_history_def retry_init_def)

lemma map_upt_snoc: "map f [0 ..< n] @ [f n] = map f [0 ..< Suc n]"
  by simp

lemma follows_code_wait:
  assumes "follows_code base inc cap s"
  shows "follows_code base inc cap (wait_step maxr inc cap s)"
proof (cases "RETRY_COUNT s > 0")
  case False
  with assms show ?thesis by (simp add: wait_step_def)
next
  case True
  let ?n = "length (slept (trace s))"
  have h: "slept (trace s) @ [RETRY_DELAY s] = map (delay_after base inc cap) [0 ..< Suc ?n]"
    using assms by (simp add: follows_code_def delay_history_def)
  then have "(slept (trace s) @ [RETRY_DELAY s]) ! ?n = map (delay_after base inc cap) [0 ..< Suc ?n] ! ?n"
    by simp
  then have d: "RETRY_DELAY s = delay_after base inc cap ?n"
    by (simp add: nth_append del: upt_Suc)
  have "delay_history (wait_step maxr inc cap s)
        = (slept (trace s) @ [RETRY_DELAY s]) @ [retry_delay_update inc cap (RETRY_DELAY s)]"
    using True by (simp add: wait_step_def delay_history_def)
  also have "\<dots> = map (delay_after base inc cap) [0 ..< Suc ?n] @ [delay_after base inc cap (Suc ?n)]"
    using h d by simp
  also have "\<dots> = map (delay_after base inc cap) [0 ..< Suc (Suc ?n)]"
    by simp
  finally have e: "delay_history (wait_step maxr inc cap s)
                   = map (delay_after base inc cap) [0 ..< Suc (Suc ?n)]" .
  then have "length (delay_history (wait_step maxr inc cap s)) = Suc (Suc ?n)"
    by simp
  with e show ?thesis
    by (simp only: follows_code_def)
qed

lemma delay_history_on_success [simp]: "delay_history (on_success s) = delay_history s"
  by (simp add: delay_history_def on_success_def)

lemma delay_history_on_failure [simp]: "delay_history (on_failure maxr msgs s) = delay_history s"
  by (simp add: delay_history_def on_failure_def)

lemma follows_code_loop:
  "follows_code base inc cap s \<Longrightarrow> follows_code base inc cap (retry_loop maxr inc cap msgs op s)"
proof (induction maxr inc cap msgs op s rule: retry_loop.induct)
  case (1 maxr inc cap msgs op s)
  have w: "follows_code base inc cap (wait_step maxr inc cap s)"
    by (rule follows_code_wait [OF "1.prems"])
  show ?case
  proof (cases "RETRY_COUNT s < maxr")
    case False
    then show ?thesis using "1.prems" by (simp add: retry_loop_done)
  next
    case True
    show ?thesis
    proof (cases "op (attempts (trace s))")
      case True
      with \<open>RETRY_COUNT s < maxr\<close> w show ?thesis
        by (simp add: retry_loop_success follows_code_def)
    next
      case False
      have "follows_code base inc cap (on_failure maxr msgs (wait_step maxr inc cap s))"
        using w by (simp add: follows_code_def)
      then have "follows_code base inc cap
                   (retry_loop maxr inc cap msgs op (on_failure maxr msgs (wait_step maxr inc cap s)))"
        using "1.IH" \<open>RETRY_COUNT s < maxr\<close> False by simp
      then show ?thesis
        using \<open>RETRY_COUNT s < maxr\<close> False
        by (simp add: retry_loop_failure [where op = op and s = s])
    qed
  qed
qed

text \<open>
  The update in its general form: when the increment is not negative, the base is at most
  the cap and the distance between them is a multiple of the increment, the values the
  delay takes are those of the saturating sequence.
\<close>

lemma delay_saturates_general:
  assumes "0 \<le> inc" and "base \<le> cap" and "inc dvd cap - base"
  shows "delay_history (retry_runner maxr base inc cap msgs op)
           = map (saturating_delay base inc cap)
               [0 ..< length (delay_history (retry_runner maxr base inc cap msgs op))]
       \<and> sorted (delay_history (retry_runner maxr base inc cap msgs op))
       \<and> (\<forall>d \<in> set (delay_history (retry_runner maxr base inc cap msgs op)). d \<le> cap)
       \<and> (\<forall>i j. i \<le> j \<and> j < length (delay_history (retry_runner maxr base inc cap msgs op))
              \<and> delay_history (retry_runner maxr base inc cap msgs op) ! i = cap
            \<longrightarrow> delay_history (retry_runner maxr base inc cap msgs op) ! j = cap)"
proof -
  let ?h = "delay_history (retry_runner maxr base inc cap msgs op)"
  have "follows_code base inc cap (retry_runner maxr base inc cap msgs op)"
    unfolding retry_runner_def by (rule follows_code_loop [OF follows_code_init])
  then have "?h = map (delay_after base inc cap) [0 ..< length ?h]"
    by (simp only: follows_code_def)
  also have "\<dots> = map (saturating_delay base inc cap) [0 ..< length ?h]"
    using delay_after_saturating [OF assms] by simp
  finally have eq: "?h = map (saturating_delay base inc cap) [0 ..< length ?h]" .
  have srt: "sorted ?h"
    using sorted_saturating [OF assms(1,2), of "length ?h"] eq by simp
  have le: "\<forall>d \<in> set ?h. d \<le> cap"
  proof
    fix d assume "d \<in> set ?h"
    then have "d \<in> set (map (saturating_delay base inc cap) [0 ..< length ?h])"
      using eq by simp
    then show "d \<le> cap"
      using saturating_delay_le_cap [OF assms(2)] by auto
  qed
  have "\<forall>i j. i \<le> j \<and> j < length ?h \<and> ?h ! i = cap \<longrightarrow> ?h ! j = cap"
  proof (intro allI impI)
    fix i j assume a: "i \<le> j \<and> j < length ?h \<and> ?h ! i = cap"
    then have ij: "i \<le> j" and jl: "j < length ?h" and ic: "?h ! i = cap" by blast+
    have "?h ! i \<le> ?h ! j" by (rule sorted_nth_mono [OF srt ij jl])
    moreover have "?h ! j \<le> cap" using le jl by simp
    ultimately show "?h ! j = cap" using ic by simp
  qed
  with eq srt le show ?thesis by blast
qed

lemma saturating_delay_script: "saturating_delay 10 5 30 i = min (10 + 5 * int i) 30"
  by (induction i) simp_all

text \<open>
  Claim C5. The scripts start the delay at 10, raise it by 5 and cap it at 30. For every
  operation and every attempt budget, the values the delay takes, in order, are those of
  the saturating sequence, \<open>min (10 + 5 i) 30\<close> after \<open>i\<close> updates: they never
  decrease, never exceed 30, and stay at 30 once they have reached it.
\<close>

theorem delay_saturates:
  "delay_history (retry_runner maxr 10 5 30 msgs op)
     = map (saturating_delay 10 5 30) [0 ..< length (delay_history (retry_runner maxr 10 5 30 msgs op))]
   \<and> (\<forall>i. i < length (delay_history (retry_runner maxr 10 5 30 msgs op)) \<longrightarrow>
          delay_history (retry_runner maxr 10 5 30 msgs op) ! i = min (10 + 5 * int i) 30)
   \<and> sorted (delay_history (retry_runner maxr 10 5 30 msgs op))
   \<and> (\<forall>d \<in> set (delay_history (retry_runner maxr 10 5 30 msgs op)). d \<le> 30)
   \<and> (\<forall>i j. i \<le> j \<and> j < length (delay_history (retry_runner maxr 10 5 30 msgs op))
          \<and> delay_history (retry_runner maxr 10 5 30 msgs op) ! i = 30
        \<longrightarrow> delay_history (retry_runner maxr 10 5 30 msgs op) ! j = 30)"
proof -
  let ?h = "delay_history (retry_runner maxr 10 5 30 msgs op)"
  have p: "(0::int) \<le> 5" "(10::int) \<le> 30" "(5::int) dvd 30 - 10" by simp_all
  note g = delay_saturates_general [OF p, of maxr msgs op]
  from g have eq: "?h = map (saturating_delay 10 5 30) [0 ..< length ?h]" by blast
  have "\<forall>i. i < length ?h \<longrightarrow> ?h ! i = min (10 + 5 * int i) 30"
  proof (intro allI impI)
    fix i assume i: "i < length ?h"
    have "?h ! i = map (saturating_delay 10 5 30) [0 ..< length ?h] ! i"
      using eq by simp
    also have "\<dots> = saturating_delay 10 5 30 i"
      using i by simp
    finally show "?h ! i = min (10 + 5 * int i) 30"
      by (simp only: saturating_delay_script)
  qed
  with g show ?thesis by blast
qed

text \<open>
  The loop of the scripts with an operation that never succeeds: the delay is raised
  eleven times.
\<close>

theorem delay_saturates_witness:
  "delay_history (secret_retry [] always_fails)
     = [10, 15, 20, 25, 30, 30, 30, 30, 30, 30, 30, 30]
   \<and> (1::nat) < length (delay_history (secret_retry [] always_fails))
   \<and> delay_history (secret_retry [] always_fails) ! 1 = min (10 + 5 * int 1) 30
   \<and> sorted (delay_history (secret_retry [] always_fails))
   \<and> Max (set (delay_history (secret_retry [] always_fails))) = 30
   \<and> (4::nat) \<le> 11 \<and> (11::nat) < length (delay_history (secret_retry [] always_fails))
   \<and> delay_history (secret_retry [] always_fails) ! 4 = 30
   \<and> delay_history (secret_retry [] always_fails) ! 11 = 30"
proof -
  have v: "delay_history (secret_retry [] always_fails)
             = [10, 15, 20, 25, 30, 30, 30, 30, 30, 30, 30, 30]"
    by code_simp
  have l: "(1::nat) < length (delay_history (secret_retry [] always_fails))"
    "(11::nat) < length (delay_history (secret_retry [] always_fails))"
    unfolding v by simp_all
  have f: "delay_history (secret_retry [] always_fails) ! 4 = 30"
    unfolding v by simp
  have m: "Max (set (delay_history (secret_retry [] always_fails))) = 30"
    unfolding v by simp
  note t = delay_saturates [of MAX_RETRIES "[]" always_fails, folded secret_retry_def]
  from t l have a: "delay_history (secret_retry [] always_fails) ! 1 = min (10 + 5 * int 1) 30"
    by blast
  from t have s: "sorted (delay_history (secret_retry [] always_fails))"
    by blast
  have "(4::nat) \<le> 11" by simp
  with t l f have b: "delay_history (secret_retry [] always_fails) ! 11 = 30"
    by blast
  show ?thesis
    using v l a s m f b by simp
qed

text \<open>
  Claim C6. When the operation fails \<open>k\<close> times and then succeeds, with \<open>k\<close> below
  the attempt budget, the loop of the scripts makes \<open>k + 1\<close> attempts, waits exactly
  the first \<open>k\<close> delays of the saturating sequence (so their sum is the time waited),
  prints no warning, and ends with the successful attempt: nothing is waited after it.
\<close>

theorem success_after_failures:
  assumes "int k < maxr" and "\<forall>i<k. \<not> op i" and "op k"
  shows "attempts (trace (retry_runner maxr 10 5 30 msgs op)) = k + 1
       \<and> slept (trace (retry_runner maxr 10 5 30 msgs op)) = map (saturating_delay 10 5 30) [0 ..< k]
       \<and> sum_list (slept (trace (retry_runner maxr 10 5 30 msgs op)))
           = (\<Sum>i<k. saturating_delay 10 5 30 i)
       \<and> warned (trace (retry_runner maxr 10 5 30 msgs op)) = []
       \<and> (\<exists>pre. trace (retry_runner maxr 10 5 30 msgs op) =
             pre @ [Run AzKeyvaultSecretSet, Print SUCCESS ''Sample secret created successfully!''])"
proof -
  let ?r = "retry_runner maxr 10 5 30 msgs op"
  have p: "(0::int) \<le> 5" "(10::int) \<le> 30" "(5::int) dvd 30 - 10" by simp_all
  have a: "int (0 + k) < maxr" "\<forall>i<k. \<not> op (0 + i)" "op (0 + k)"
    using assms by simp_all
  have l: "attempts (trace ?r) = Suc (0 + k)
       \<and> slept (trace ?r) = map (delay_after 10 5 30) [0 ..< 0 + k]
       \<and> warned (trace ?r) = []
       \<and> (\<exists>pre. trace ?r =
             pre @ [Run AzKeyvaultSecretSet, Print SUCCESS ''Sample secret created successfully!''])"
    unfolding retry_runner_def
    by (rule loop_success_after [OF counted_init a])
  have "map (delay_after 10 5 30) [0 ..< k] = map (saturating_delay 10 5 30) [0 ..< k]"
    using delay_after_saturating [OF p] by simp
  with l have s: "slept (trace ?r) = map (saturating_delay 10 5 30) [0 ..< k]"
    by simp
  have "sum_list (map (saturating_delay 10 5 30) [0 ..< k]) = (\<Sum>i<k. saturating_delay 10 5 30 i)"
    by (simp add: sum_list_sum_nth atLeast0LessThan)
  with s have "sum_list (slept (trace ?r)) = (\<Sum>i<k. saturating_delay 10 5 30 i)"
    by simp
  with l s show ?thesis by simp
qed

text \<open>Three failures: the waits are 10, 15 and 20, over four attempts.\<close>

theorem success_after_failures_witness:
  "int 3 < MAX_RETRIES
   \<and> \<not> fails_then_succeeds 3 0 \<and> \<not> fails_then_succeeds 3 1 \<and> \<not> fails_then_succeeds 3 2
   \<and> fails_then_succeeds 3 3
   \<and> attempts (trace (secret_retry [] (fails_then_succeeds 3))) = 4
   \<and> slept (trace (secret_retry [] (fails_then_succeeds 3))) = [10, 15, 20]
   \<and> sum_list (slept (trace (secret_retry [] (fails_then_succeeds 3)))) = 45
   \<and> last (trace (secret_retry [] (fails_then_succeeds 3)))
       = Print SUCCESS ''Sample secret created successfully!''"
proof -
  have h: "int 3 < MAX_RETRIES" "\<forall>i<3. \<not> fails_then_succeeds 3 i" "fails_then_succeeds 3 3"
    by (simp_all add: MAX_RETRIES_def fails_then_succeeds_def)
  have e: "map (saturating_delay 10 5 30) [0 ..< 3] = [10, 15, 20]"
    by (simp add: upt_rec numeral_eq_Suc)
  from success_after_failures [OF h, of "[]"]
  have "attempts (trace (secret_retry [] (fails_then_succeeds 3))) = 4"
    and "slept (trace (secret_retry [] (fails_then_succeeds 3))) = [10, 15, 20]"
    and "\<exists>pre. trace (secret_retry [] (fails_then_succeeds 3)) =
             pre @ [Run AzKeyvaultSecretSet, Print SUCCESS ''Sample secret created successfully!'']"
    using e by (simp_all add: secret_retry_def)
  moreover have "\<not> fails_then_succeeds 3 0 \<and> \<not> fails_then_succeeds 3 1
      \<and> \<not> fails_then_succeeds 3 2"
    by (simp add: fails_then_succeeds_def)
  ultimately show ?thesis using h by auto
qed


section \<open>The scripts as a whole\<close>

lemma errexit_ok: "cmd_status w c = 0 \<Longrightarrow> errexit w c tr k = k (tr @ [Run c])"
  by (simp add: errexit_def)

lemma provision1_reaches:
  assumes "reaches_secret1 w"
  shows "provision1 w k = k (provision1_out w)"
proof -
  have s: "cmd_status w OpensslRand = 0" "cmd_status w AzAccountShow = 0"
    "cmd_status w AzAccountShowId = 0" "cmd_status w AzAccountShowName = 0"
    "cmd_status w AzSignedInUserId = 0" "cmd_status w AzSignedInUserUpn = 0"
    "cmd_status w ReadReply = 0" "cmd_status w AzGroupCreate = 0"
    "cmd_status w AzKeyvaultCreate = 0" "cmd_status w AzKeyvaultShowId = 0"
    "cmd_status w AzRoleAssignmentCreate = 0" "confirmed (REPLY w)"
    using assms by (simp_all add: reaches_secret1_def calls_before_secret1_def)
  show ?thesis
    unfolding provision1_out_def provision1_def Let_def
    by (simp only: errexit_ok s if_True if_False not_True_eq_False simp_thms run.simps)
qed

lemma provision1_no_attempt:
  assumes "reaches_secret1 w"
  shows "attempts (provision1_out w) = 0"
proof -
  have s: "cmd_status w OpensslRand = 0" "cmd_status w AzAccountShow = 0"
    "cmd_status w AzAccountShowId = 0" "cmd_status w AzAccountShowName = 0"
    "cmd_status w AzSignedInUserId = 0" "cmd_status w AzSignedInUserUpn = 0"
    "cmd_status w ReadReply = 0" "cmd_status w AzGroupCreate = 0"
    "cmd_status w AzKeyvaultCreate = 0" "cmd_status w AzKeyvaultShowId = 0"
    "cmd_status w AzRoleAssignmentCreate = 0" "confirmed (REPLY w)"
    using assms by (simp_all add: reaches_secret1_def calls_before_secret1_def)
  show ?thesis
    unfolding provision1_out_def provision1_def Let_def
    by (simp add: errexit_ok s resources_lines_def)
qed

lemma provision2_reaches:
  assumes "reaches_role2 w"
  shows "provision2 w k = k (provision2_out w)"
proof -
  have s: "cmd_status w OpensslRand = 0" "cmd_status w AzAccountShow = 0"
    "cmd_status w AzAccountShowId = 0" "cmd_status w AzAccountShowName = 0"
    "cmd_status w AzAccountShowTenantId = 0"
    "cmd_status w AzSignedInUserId = 0" "cmd_status w AzSignedInUserUpn = 0"
    "cmd_status w ReadReply = 0" "cmd_status w AzGroupCreate = 0"
    "cmd_status w AzKeyvaultCreate = 0" "cmd_status w AzAccountSet = 0"
    "cmd_status w AzKeyvaultShowId = 0"
    "cmd_status w AzKeyvaultShowIdAgain = 0" "confirmed (REPLY w)"
    using assms by (simp_all add: reaches_role2_def calls_before_role2_def)
  show ?thesis
    unfolding provision2_out_def provision2_def Let_def
    by (simp only: errexit_ok s if_True if_False not_True_eq_False simp_thms run.simps)
qed

lemma provision2_no_attempt:
  assumes "reaches_role2 w"
  shows "attempts (provision2_out w) = 0"
proof -
  have s: "cmd_status w OpensslRand = 0" "cmd_status w AzAccountShow = 0"
    "cmd_status w AzAccountShowId = 0" "cmd_status w AzAccountShowName = 0"
    "cmd_status w AzAccountShowTenantId = 0"
    "cmd_status w AzSignedInUserId = 0" "cmd_status w AzSignedInUserUpn = 0"
    "cmd_status w ReadReply = 0" "cmd_status w AzGroupCreate = 0"
    "cmd_status w AzKeyvaultCreate = 0" "cmd_status w AzAccountSet = 0"
    "cmd_status w AzKeyvaultShowId = 0"
    "cmd_status w AzKeyvaultShowIdAgain = 0" "confirmed (REPLY w)"
    using assms by (simp_all add: reaches_role2_def calls_before_role2_def)
  show ?thesis
    unfolding provision2_out_def provision2_def Let_def
    by (simp add: errexit_ok s resources_lines_def)
qed

lemma finish_out:
  "out (finish w tr) =
     tr @ summary_lines w @ Run CatConfig # (if cmd_status w CatConfig = 0 then closing_lines w else [])"
  by (simp add: finish_def errexit_def)

lemma finish_exit: "exit_code (finish w tr) = cmd_status w CatConfig"
  by (simp add: finish_def errexit_def)

lemma attempts_summary [simp]: "attempts (summary_lines w) = 0"
  by (simp add: summary_lines_def)

lemma attempts_closing [simp]: "attempts (closing_lines w) = 0"
  by (simp add: closing_lines_def)

lemma attempts_secret_intro [simp]: "attempts secret_intro = 0"
  by (simp add: secret_intro_def)

lemma attempts_role_assignment2 [simp]: "attempts (snd (role_assignment2 w)) = 0"
  by (simp add: role_assignment2_def)

lemma show_int_12: "show_int 12 = ''12''"
  by code_simp

text \<open>
  Claim C7. When the operation fails at every attempt and the budget is \<open>N\<close> attempts,
  the loop makes exactly \<open>N\<close> attempts and then prints the warnings, which are the last
  thing it does. In the first script, whose budget is 12, the loop prints the five warnings
  that say the secret could not be created and how to create it by hand; the script then
  goes on, prints the summary and runs the command that writes the configuration file. Its
  exit status is that of this last command, and when the command succeeds the file is
  written and the two closing lines are printed.
\<close>

theorem exhaustion_is_warning:
  assumes "\<forall>i. \<not> secret_set w i" and "0 < N"
  shows "attempts (trace (retry_runner (int N) base inc cap msgs (secret_set w))) = N
       \<and> warned (trace (retry_runner (int N) base inc cap msgs (secret_set w))) = msgs
       \<and> (\<exists>pre. trace (retry_runner (int N) base inc cap msgs (secret_set w))
                  = pre @ map (Print WARNING) msgs)
       \<and> (reaches_secret1 w \<longrightarrow>
          out (setup_script1 w) =
            provision1_out w
          @ [Print INFO ''Creating sample secret 'MySecret' for testing...'',
             Print WARNING
               ''Note: RBAC permissions may take up to 5 minutes to propagate. Retrying if needed...'']
          @ trace (secret_retry (exhausted_msgs1 w) (secret_set w))
          @ [Echo [],
             Print SUCCESS ''Setup completed successfully!'',
             Echo [],
             Echo ''=== RESOURCE SUMMARY ==='',
             Echo (''Resource Group: '' @ RESOURCE_GROUP_NAME w),
             Echo (''Key Vault Name: '' @ KEY_VAULT_NAME w),
             Echo (''Key Vault URL: https://'' @ KEY_VAULT_NAME w @ ''.vault.azure.net/''),
             Echo ''Location: eastus'',
             Echo (''User: '' @ CURRENT_USER_UPN w),
             Echo ''Role: Key Vault Secrets Officer'',
             Echo [],
             Echo ''=== NEXT STEPS ==='',
             Echo ''1. Set the Key Vault URL as an environment variable:'',
             Echo (''   export AZURE_KEY_VAULT_URL=\"https://'' @ KEY_VAULT_NAME w @
                   ''.vault.azure.net/\"''),
             Echo [],
             Echo ''   Or add it to your .env file:'',
             Echo (''   echo \"AZURE_KEY_VAULT_URL=https://'' @ KEY_VAULT_NAME w @
                   ''.vault.azure.net/\" >> sample.env''),
             Echo [],
             Echo ''2. Run the brokered authentication sample:'',
             Echo ''   npm run build'',
             Echo ''   npm run start:broker'',
             Echo [],
             Echo ''3. Clean up resources when done:'',
             Echo (''   az group delete --name '' @ RESOURCE_GROUP_NAME w @ '' --yes --no-wait''),
             Echo []]
          @ Run CatConfig #
            (if cmd_status w CatConfig = 0 then
             [WriteFile ''./keyvault-config.txt''
                (concat (map (\<lambda>l. l @ [CHR 0x0A])
                   [''# Azure Key Vault Configuration'',
                    ''# Generated on: '' @ cmd_output w Date,
                    [],
                    ''RESOURCE_GROUP_NAME=\"'' @ RESOURCE_GROUP_NAME w @ ''\"'',
                    ''KEY_VAULT_NAME=\"'' @ KEY_VAULT_NAME w @ ''\"'',
                    ''KEY_VAULT_URL=\"https://'' @ KEY_VAULT_NAME w @ ''.vault.azure.net/\"'',
                    ''LOCATION=\"eastus\"'',
                    ''SUBSCRIPTION_ID=\"'' @ SUBSCRIPTION_ID w @ ''\"'',
                    ''USER_UPN=\"'' @ CURRENT_USER_UPN w @ ''\"'',
                    [],
                    ''# Environment variable to set:'',
                    ''export AZURE_KEY_VAULT_URL=\"https://'' @ KEY_VAULT_NAME w @
                      ''.vault.azure.net/\"'',
                    [],
                    ''# To clean up these resources:'',
                    ''# az group delete --name '' @ RESOURCE_GROUP_NAME w @
                      '' --yes --no-wait''])),
              Print SUCCESS ''Configuration saved to: ./keyvault-config.txt'',
              Print INFO ''You can now test the brokered authentication sample!'']
             else [])
          \<and> warned (trace (secret_retry (exhausted_msgs1 w) (secret_set w))) =
             [''Failed to create sample secret after 12 attempts.'',
              ''RBAC permissions may still be propagating. You can:'',
              ''  1. Wait a few more minutes and try manually:'',
              ''     az keyvault secret set --vault-name '' @ KEY_VAULT_NAME w @
                '' --name MySecret --value 'test'' @ [CHR 0x27],
              ''  2. Or proceed - the Key Vault is ready, just permissions need time.'']
          \<and> (\<exists>pre. trace (secret_retry (exhausted_msgs1 w) (secret_set w)) =
                pre @ map (Print WARNING)
             [''Failed to create sample secret after 12 attempts.'',
              ''RBAC permissions may still be propagating. You can:'',
              ''  1. Wait a few more minutes and try manually:'',
              ''     az keyvault secret set --vault-name '' @ KEY_VAULT_NAME w @
                '' --name MySecret --value 'test'' @ [CHR 0x27],
              ''  2. Or proceed - the Key Vault is ready, just permissions need time.''])
          \<and> attempts (out (setup_script1 w)) = 12
          \<and> exit_code (setup_script1 w) = cmd_status w CatConfig)"
proof -
  have run: "attempts (trace (retry_runner (int M) b i c ms (secret_set w))) = M
       \<and> warned (trace (retry_runner (int M) b i c ms (secret_set w))) = ms
       \<and> (\<exists>pre. trace (retry_runner (int M) b i c ms (secret_set w)) = pre @ map (Print WARNING) ms)"
    if "0 < M" for M b i c ms
  proof -
    have "counted (int M) b i c ms (retry_runner (int M) b i c ms (secret_set w)) M"
      unfolding retry_runner_def
      by (rule loop_exhausts [OF counted_init _ _ assms(1)]) simp_all
    moreover have "\<exists>pre. trace (retry_runner (int M) b i c ms (secret_set w))
                      = pre @ map (Print WARNING) ms"
      unfolding retry_runner_def
      by (rule loop_exhausts_last [OF _ _ that assms(1)]) (simp_all add: retry_init_def)
    ultimately show ?thesis using that by (simp add: counted_def)
  qed
  have msgs: "exhausted_msgs1 w =
             [''Failed to create sample secret after 12 attempts.'',
              ''RBAC permissions may still be propagating. You can:'',
              ''  1. Wait a few more minutes and try manually:'',
              ''     az keyvault secret set --vault-name '' @ KEY_VAULT_NAME w @
                '' --name MySecret --value 'test'' @ [CHR 0x27],
              ''  2. Or proceed - the Key Vault is ready, just permissions need time.'']"
    by (simp add: exhausted_msgs1_def MAX_RETRIES_def show_int_12)
  have script: "out (setup_script1 w) =
            provision1_out w
          @ [Print INFO ''Creating sample secret 'MySecret' for testing...'',
             Print WARNING
               ''Note: RBAC permissions may take up to 5 minutes to propagate. Retrying if needed...'']
          @ trace (secret_retry (exhausted_msgs1 w) (secret_set w))
          @ [Echo [],
             Print SUCCESS ''Setup completed successfully!'',
             Echo [],
             Echo ''=== RESOURCE SUMMARY ==='',
             Echo (''Resource Group: '' @ RESOURCE_GROUP_NAME w),
             Echo (''Key Vault Name: '' @ KEY_VAULT_NAME w),
             Echo (''Key Vault URL: https://'' @ KEY_VAULT_NAME w @ ''.vault.azure.net/''),
             Echo ''Location: eastus'',
             Echo (''User: '' @ CURRENT_USER_UPN w),
             Echo ''Role: Key Vault Secrets Officer'',
             Echo [],
             Echo ''=== NEXT STEPS ==='',
             Echo ''1. Set the Key Vault URL as an environment variable:'',
             Echo (''   export AZURE_KEY_VAULT_URL=\"https://'' @ KEY_VAULT_NAME w @
                   ''.vault.azure.net/\"''),
             Echo [],
             Echo ''   Or add it to your .env file:'',
             Echo (''   echo \"AZURE_KEY_VAULT_URL=https://'' @ KEY_VAULT_NAME w @
                   ''.vault.azure.net/\" >> sample.env''),
             Echo [],
             Echo ''2. Run the brokered authentication sample:'',
             Echo ''   npm run build'',
             Echo ''   npm run start:broker'',
             Echo [],
             Echo ''3. Clean up resources when done:'',
             Echo (''   az group delete --name '' @ RESOURCE_GROUP_NAME w @ '' --yes --no-wait''),
             Echo []]
          @ Run CatConfig #
            (if cmd_status w CatConfig = 0 then
             [WriteFile ''./keyvault-config.txt''
                (concat (map (\<lambda>l. l @ [CHR 0x0A])
                   [''# Azure Key Vault Configuration'',
                    ''# Generated on: '' @ cmd_output w Date,
                    [],
                    ''RESOURCE_GROUP_NAME=\"'' @ RESOURCE_GROUP_NAME w @ ''\"'',
                    ''KEY_VAULT_NAME=\"'' @ KEY_VAULT_NAME w @ ''\"'',
                    ''KEY_VAULT_URL=\"https://'' @ KEY_VAULT_NAME w @ ''.vault.azure.net/\"'',
                    ''LOCATION=\"eastus\"'',
                    ''SUBSCRIPTION_ID=\"'' @ SUBSCRIPTION_ID w @ ''\"'',
                    ''USER_UPN=\"'' @ CURRENT_USER_UPN w @ ''\"'',
                    [],
                    ''# Environment variable to set:'',
                    ''export AZURE_KEY_VAULT_URL=\"https://'' @ KEY_VAULT_NAME w @
                      ''.vault.azure.net/\"'',
                    [],
                    ''# To clean up these resources:'',
                    ''# az group delete --name '' @ RESOURCE_GROUP_NAME w @
                      '' --yes --no-wait''])),
              Print SUCCESS ''Configuration saved to: ./keyvault-config.txt'',
              Print INFO ''You can now test the brokered authentication sample!'']
             else [])
          \<and> warned (trace (secret_retry (exhausted_msgs1 w) (secret_set w))) =
             [''Failed to create sample secret after 12 attempts.'',
              ''RBAC permissions may still be propagating. You can:'',
              ''  1. Wait a few more minutes and try manually:'',
              ''     az keyvault secret set --vault-name '' @ KEY_VAULT_NAME w @
                '' --name MySecret --value 'test'' @ [CHR 0x27],
              ''  2. Or proceed - the Key Vault is ready, just permissions need time.'']
          \<and> (\<exists>pre. trace (secret_retry (exhausted_msgs1 w) (secret_set w)) =
                pre @ map (Print WARNING)
             [''Failed to create sample secret after 12 attempts.'',
              ''RBAC permissions may still be propagating. You can:'',
              ''  1. Wait a few more minutes and try manually:'',
              ''     az keyvault secret set --vault-name '' @ KEY_VAULT_NAME w @
                '' --name MySecret --value 'test'' @ [CHR 0x27],
              ''  2. Or proceed - the Key Vault is ready, just permissions need time.''])
          \<and> attempts (out (setup_script1 w)) = 12
          \<and> exit_code (setup_script1 w) = cmd_status w CatConfig"
    if r: "reaches_secret1 w"
  proof -
    have m: "MAX_RETRIES = int 12" by (simp add: MAX_RETRIES_def)
    have l: "attempts (trace (secret_retry (exhausted_msgs1 w) (secret_set w))) = 12
       \<and> warned (trace (secret_retry (exhausted_msgs1 w) (secret_set w))) = exhausted_msgs1 w
       \<and> (\<exists>pre. trace (secret_retry (exhausted_msgs1 w) (secret_set w))
                  = pre @ map (Print WARNING) (exhausted_msgs1 w))"
      unfolding secret_retry_def m using run [of 12 10 5 30 "exhausted_msgs1 w"] by simp
    have o: "out (setup_script1 w) =
              provision1_out w @ secret_intro
              @ trace (secret_retry (exhausted_msgs1 w) (secret_set w))
              @ summary_lines w
              @ Run CatConfig # (if cmd_status w CatConfig = 0 then closing_lines w else [])"
      by (simp add: setup_script1_def provision1_reaches [OF r] finish_out secret_section1_def)
    have e: "exit_code (setup_script1 w) = cmd_status w CatConfig"
      by (simp add: setup_script1_def provision1_reaches [OF r] finish_exit)
    have a: "attempts (out (setup_script1 w)) = 12"
      unfolding o using l provision1_no_attempt [OF r] by simp
    have o': "out (setup_script1 w) =
            provision1_out w
          @ [Print INFO ''Creating sample secret 'MySecret' for testing...'',
             Print WARNING
               ''Note: RBAC permissions may take up to 5 minutes to propagate. Retrying if needed...'']
          @ trace (secret_retry (exhausted_msgs1 w) (secret_set w))
          @ [Echo [],
             Print SUCCESS ''Setup completed successfully!'',
             Echo [],
             Echo ''=== RESOURCE SUMMARY ==='',
             Echo (''Resource Group: '' @ RESOURCE_GROUP_NAME w),
             Echo (''Key Vault Name: '' @ KEY_VAULT_NAME w),
             Echo (''Key Vault URL: https://'' @ KEY_VAULT_NAME w @ ''.vault.azure.net/''),
             Echo ''Location: eastus'',
             Echo (''User: '' @ CURRENT_USER_UPN w),
             Echo ''Role: Key Vault Secrets Officer'',
             Echo [],
             Echo ''=== NEXT STEPS ==='',
             Echo ''1. Set the Key Vault URL as an environment variable:'',
             Echo (''   export AZURE_KEY_VAULT_URL=\"https://'' @ KEY_VAULT_NAME w @
                   ''.vault.azure.net/\"''),
             Echo [],
             Echo ''   Or add it to your .env file:'',
             Echo (''   echo \"AZURE_KEY_VAULT_URL=https://'' @ KEY_VAULT_NAME w @
                   ''.vault.azure.net/\" >> sample.env''),
             Echo [],
             Echo ''2. Run the brokered authentication sample:'',
             Echo ''   npm run build'',
             Echo ''   npm run start:broker'',
             Echo [],
             Echo ''3. Clean up resources when done:'',
             Echo (''   az group delete --name '' @ RESOURCE_GROUP_NAME w @ '' --yes --no-wait''),
             Echo []]
          @ Run CatConfig #
            (if cmd_status w CatConfig = 0 then
             [WriteFile ''./keyvault-config.txt''
                (concat (map (\<lambda>l. l @ [CHR 0x0A])
                   [''# Azure Key Vault Configuration'',
                    ''# Generated on: '' @ cmd_output w Date,
                    [],
                    ''RESOURCE_GROUP_NAME=\"'' @ RESOURCE_GROUP_NAME w @ ''\"'',
                    ''KEY_VAULT_NAME=\"'' @ KEY_VAULT_NAME w @ ''\"'',
                    ''KEY_VAULT_URL=\"https://'' @ KEY_VAULT_NAME w @ ''.vault.azure.net/\"'',
                    ''LOCATION=\"eastus\"'',
                    ''SUBSCRIPTION_ID=\"'' @ SUBSCRIPTION_ID w @ ''\"'',
                    ''USER_UPN=\"'' @ CURRENT_USER_UPN w @ ''\"'',
                    [],
                    ''# Environment variable to set:'',
                    ''export AZURE_KEY_VAULT_URL=\"https://'' @ KEY_VAULT_NAME w @
                      ''.vault.azure.net/\"'',
                    [],
                    ''# To clean up these resources:'',
                    ''# az group delete --name '' @ RESOURCE_GROUP_NAME w @
                      '' --yes --no-wait''])),
              Print SUCCESS ''Configuration saved to: ./keyvault-config.txt'',
              Print INFO ''You can now test the brokered authentication sample!'']
             else [])"
      unfolding o
      by (simp add: secret_intro_def summary_lines_def closing_lines_def config_content_def
          config_lines_def vault_url_def CONFIG_FILE_def LOCATION_def)
    from l have w1: "warned (trace (secret_retry (exhausted_msgs1 w) (secret_set w))) =
             [''Failed to create sample secret after 12 attempts.'',
              ''RBAC permissions may still be propagating. You can:'',
              ''  1. Wait a few more minutes and try manually:'',
              ''     az keyvault secret set --vault-name '' @ KEY_VAULT_NAME w @
                '' --name MySecret --value 'test'' @ [CHR 0x27],
              ''  2. Or proceed - the Key Vault is ready, just permissions need time.'']"
      using msgs by simp
    from l have w2: "\<exists>pre. trace (secret_retry (exhausted_msgs1 w) (secret_set w)) =
                pre @ map (Print WARNING)
             [''Failed to create sample secret after 12 attempts.'',
              ''RBAC permissions may still be propagating. You can:'',
              ''  1. Wait a few more minutes and try manually:'',
              ''     az keyvault secret set --vault-name '' @ KEY_VAULT_NAME w @
                '' --name MySecret --value 'test'' @ [CHR 0x27],
              ''  2. Or proceed - the Key Vault is ready, just permissions need time.'']"
      using msgs by simp
    from o' w1 w2 a e show ?thesis by blast
  qed
  from run [OF assms(2)] script show ?thesis by blast
qed

text \<open>
  Every command but the secret write succeeds: twelve attempts, the warnings, the summary,
  the file, and exit status 0.
\<close>

theorem exhaustion_is_warning_witness:
  "(\<forall>i. \<not> secret_set world_secret_never_set i) \<and> (0::nat) < 12
   \<and> reaches_secret1 world_secret_never_set
   \<and> attempts (trace (retry_runner (int 12) 10 5 30 (exhausted_msgs1 world_secret_never_set)
                        (secret_set world_secret_never_set))) = 12
   \<and> attempts (out (setup_script1 world_secret_never_set)) = 12
   \<and> exit_code (setup_script1 world_secret_never_set) = 0
   \<and> warned (out (setup_script1 world_secret_never_set)) =
       [''Note: RBAC permissions may take up to 5 minutes to propagate. Retrying if needed...'',
        ''Failed to create sample secret after 12 attempts.'',
        ''RBAC permissions may still be propagating. You can:'',
        ''  1. Wait a few more minutes and try manually:'',
        ''     az keyvault secret set --vault-name kvbrokerkva1b2c3 --name MySecret --value 'test''
          @ [CHR 0x27],
        ''  2. Or proceed - the Key Vault is ready, just permissions need time.'']
   \<and> slept (out (setup_script1 world_secret_never_set))
       = [10, 10, 15, 20, 25, 30, 30, 30, 30, 30, 30, 30]
   \<and> Echo ''=== RESOURCE SUMMARY ==='' \<in> set (out (setup_script1 world_secret_never_set))
   \<and> Echo ''Key Vault URL: https://kvbrokerkva1b2c3.vault.azure.net/''
       \<in> set (out (setup_script1 world_secret_never_set))
   \<and> Run CatConfig \<in> set (out (setup_script1 world_secret_never_set))
   \<and> WriteFile ''./keyvault-config.txt'' (config_content world_secret_never_set)
       \<in> set (out (setup_script1 world_secret_never_set))
   \<and> last (out (setup_script1 world_secret_never_set))
       = Print INFO ''You can now test the brokered authentication sample!''"
proof -
  have h: "\<forall>i. \<not> secret_set world_secret_never_set i" "(0::nat) < 12"
    by (simp_all add: world_secret_never_set_def always_fails_def)
  have r: "reaches_secret1 world_secret_never_set"
    by (simp add: reaches_secret1_def calls_before_secret1_def world_secret_never_set_def
        confirmed_def)
  have c: "cmd_status world_secret_never_set CatConfig = 0"
    by (simp add: world_secret_never_set_def)
  note t = exhaustion_is_warning
    [OF h, of 10 5 30 "exhausted_msgs1 world_secret_never_set"]
  from t have a: "attempts (trace (retry_runner (int 12) 10 5 30
                    (exhausted_msgs1 world_secret_never_set)
                    (secret_set world_secret_never_set))) = 12"
    by blast
  from t r have n: "attempts (out (setup_script1 world_secret_never_set)) = 12"
    by blast
  from t r have "exit_code (setup_script1 world_secret_never_set)
                 = cmd_status world_secret_never_set CatConfig"
    by blast
  with c have e: "exit_code (setup_script1 world_secret_never_set) = 0"
    by simp
  have w: "warned (out (setup_script1 world_secret_never_set)) =
       [''Note: RBAC permissions may take up to 5 minutes to propagate. Retrying if needed...'',
        ''Failed to create sample secret after 12 attempts.'',
        ''RBAC permissions may still be propagating. You can:'',
        ''  1. Wait a few more minutes and try manually:'',
        ''     az keyvault secret set --vault-name kvbrokerkva1b2c3 --name MySecret --value 'test''
          @ [CHR 0x27],
        ''  2. Or proceed - the Key Vault is ready, just permissions need time.'']"
    by code_simp
  have s: "slept (out (setup_script1 world_secret_never_set))
       = [10, 10, 15, 20, 25, 30, 30, 30, 30, 30, 30, 30]"
    by code_simp
  have m1: "Echo ''=== RESOURCE SUMMARY ==='' \<in> set (out (setup_script1 world_secret_never_set))"
    by code_simp
  have m2: "Echo ''Key Vault URL: https://kvbrokerkva1b2c3.vault.azure.net/''
       \<in> set (out (setup_script1 world_secret_never_set))"
    by code_simp
  have m3: "Run CatConfig \<in> set (out (setup_script1 world_secret_never_set))"
    by code_simp
  have m4: "WriteFile ''./keyvault-config.txt'' (config_content world_secret_never_set)
       \<in> set (out (setup_script1 world_secret_never_set))"
    by code_simp
  have l: "last (out (setup_script1 world_secret_never_set))
       = Print INFO ''You can now test the brokered authentication sample!''"
    by code_simp
  show ?thesis
    using h r a n e w s m1 m2 m3 m4 l by blast
qed

text \<open>
  Claim C10. In the second script, when the role assignment fails, the secret write is
  never attempted: after the three lines about the failed assignment the script prints
  the four warnings that tell how to do both steps by hand and nothing else, then the
  summary, and runs the command that writes the configuration file; when that command
  succeeds the file is written and the two closing lines are printed.
\<close>

theorem role_failure_skips_secret:
  assumes "reaches_role2 w" and "cmd_status w AzRoleAssignmentCreate \<noteq> 0"
  shows "attempts (out (setup_script2 w)) = 0
       \<and> out (setup_script2 w) =
            provision2_out w
          @ [Run AzRoleAssignmentCreate,
             Print ERROR ''RBAC role assignment failed. You may need to assign the role manually:'',
             Print ERROR (''  az role assignment create --assignee '' @ [CHR 0x27] @
                          CURRENT_USER_OBJECT_ID w @ [CHR 0x27] @
                          '' --role 'Key Vault Secrets Officer' --scope '' @ [CHR 0x27] @
                          cmd_output w AzKeyvaultShowIdAgain @ [CHR 0x27]),
             Print WARNING
               ''This could be due to insufficient permissions or subscription limitations.'',
             Print WARNING ''Skipping secret creation due to RBAC assignment failure.'',
             Print WARNING ''You can create the secret manually after setting up RBAC permissions:'',
             Print WARNING (''  1. First assign the role: az role assignment create --assignee '' @
                            [CHR 0x27] @ CURRENT_USER_OBJECT_ID w @ [CHR 0x27] @
                            '' --role 'Key Vault Secrets Officer' --scope '' @ [CHR 0x27] @
                            cmd_output w AzKeyvaultShowIdAgain @ [CHR 0x27]),
             Print WARNING (''  2. Then create secret: az keyvault secret set --vault-name '' @
                            KEY_VAULT_NAME w @ '' --name MySecret --value 'test'' @ [CHR 0x27])]
          @ [Echo [],
             Print SUCCESS ''Setup completed successfully!'',
             Echo [],
             Echo ''=== RESOURCE SUMMARY ==='',
             Echo (''Resource Group: '' @ RESOURCE_GROUP_NAME w),
             Echo (''Key Vault Name: '' @ KEY_VAULT_NAME w),
             Echo (''Key Vault URL: https://'' @ KEY_VAULT_NAME w @ ''.vault.azure.net/''),
             Echo ''Location: eastus'',
             Echo (''User: '' @ CURRENT_USER_UPN w),
             Echo ''Role: Key Vault Secrets Officer'',
             Echo [],
             Echo ''=== NEXT STEPS ==='',
             Echo ''1. Set the Key Vault URL as an environment variable:'',
             Echo (''   export AZURE_KEY_VAULT_URL=\"https://'' @ KEY_VAULT_NAME w @
                   ''.vault.azure.net/\"''),
             Echo [],
             Echo ''   Or add it to your .env file:'',
             Echo (''   echo \"AZURE_KEY_VAULT_URL=https://'' @ KEY_VAULT_NAME w @
                   ''.vault.azure.net/\" >> sample.env''),
             Echo [],
             Echo ''2. Run the brokered authentication sample:'',
             Echo ''   npm run build'',
             Echo ''   npm run start:broker'',
             Echo [],
             Echo ''3. Clean up resources when done:'',
             Echo (''   az group delete --name '' @ RESOURCE_GROUP_NAME w @ '' --yes --no-wait''),
             Echo []]
          @ Run CatConfig #
            (if cmd_status w CatConfig = 0 then
             [WriteFile ''./keyvault-config.txt''
                (concat (map (\<lambda>l. l @ [CHR 0x0A])
                   [''# Azure Key Vault Configuration'',
                    ''# Generated on: '' @ cmd_output w Date,
                    [],
                    ''RESOURCE_GROUP_NAME=\"'' @ RESOURCE_GROUP_NAME w @ ''\"'',
                    ''KEY_VAULT_NAME=\"'' @ KEY_VAULT_NAME w @ ''\"'',
                    ''KEY_VAULT_URL=\"https://'' @ KEY_VAULT_NAME w @ ''.vault.azure.net/\"'',
                    ''LOCATION=\"eastus\"'',
                    ''SUBSCRIPTION_ID=\"'' @ SUBSCRIPTION_ID w @ ''\"'',
                    ''USER_UPN=\"'' @ CURRENT_USER_UPN w @ ''\"'',
                    [],
                    ''# Environment variable to set:'',
                    ''export AZURE_KEY_VAULT_URL=\"https://'' @ KEY_VAULT_NAME w @
                      ''.vault.azure.net/\"'',
                    [],
                    ''# To clean up these resources:'',
                    ''# az group delete --name '' @ RESOURCE_GROUP_NAME w @
                      '' --yes --no-wait''])),
              Print SUCCESS ''Configuration saved to: ./keyvault-config.txt'',
              Print INFO ''You can now test the brokered authentication sample!'']
             else [])
       \<and> exit_code (setup_script2 w) = cmd_status w CatConfig"
proof -
  have f: "fst (role_assignment2 w) = False"
    using assms(2) by (simp add: role_assignment2_def)
  have o: "out (setup_script2 w) =
           provision2_out w @ snd (role_assignment2 w) @ map (Print WARNING) (skipped_msgs w)
           @ summary_lines w
           @ Run CatConfig # (if cmd_status w CatConfig = 0 then closing_lines w else [])"
    by (simp add: setup_script2_def provision2_reaches [OF assms(1)] finish_out
        secret_section2_def f Let_def)
  have e: "exit_code (setup_script2 w) = cmd_status w CatConfig"
    by (simp add: setup_script2_def provision2_reaches [OF assms(1)] finish_exit Let_def)
  have a: "attempts (out (setup_script2 w)) = 0"
    unfolding o using provision2_no_attempt [OF assms(1)] by simp
  have o': "out (setup_script2 w) =
            provision2_out w
          @ [Run AzRoleAssignmentCreate,
             Print ERROR ''RBAC role assignment failed. You may need to assign the role manually:'',
             Print ERROR (''  az role assignment create --assignee '' @ [CHR 0x27] @
                          CURRENT_USER_OBJECT_ID w @ [CHR 0x27] @
                          '' --role 'Key Vault Secrets Officer' --scope '' @ [CHR 0x27] @
                          cmd_output w AzKeyvaultShowIdAgain @ [CHR 0x27]),
             Print WARNING
               ''This could be due to insufficient permissions or subscription limitations.'',
             Print WARNING ''Skipping secret creation due to RBAC assignment failure.'',
             Print WARNING ''You can create the secret manually after setting up RBAC permissions:'',
             Print WARNING (''  1. First assign the role: az role assignment create --assignee '' @
                            [CHR 0x27] @ CURRENT_USER_OBJECT_ID w @ [CHR 0x27] @
                            '' --role 'Key Vault Secrets Officer' --scope '' @ [CHR 0x27] @
                            cmd_output w AzKeyvaultShowIdAgain @ [CHR 0x27]),
             Print WARNING (''  2. Then create secret: az keyvault secret set --vault-name '' @
                            KEY_VAULT_NAME w @ '' --name MySecret --value 'test'' @ [CHR 0x27])]
          @ [Echo [],
             Print SUCCESS ''Setup completed successfully!'',
             Echo [],
             Echo ''=== RESOURCE SUMMARY ==='',
             Echo (''Resource Group: '' @ RESOURCE_GROUP_NAME w),
             Echo (''Key Vault Name: '' @ KEY_VAULT_NAME w),
             Echo (''Key Vault URL: https://'' @ KEY_VAULT_NAME w @ ''.vault.azure.net/''),
             Echo ''Location: eastus'',
             Echo (''User: '' @ CURRENT_USER_UPN w),
             Echo ''Role: Key Vault Secrets Officer'',
             Echo [],
             Echo ''=== NEXT STEPS ==='',
             Echo ''1. Set the Key Vault URL as an environment variable:'',
             Echo (''   export AZURE_KEY_VAULT_URL=\"https://'' @ KEY_VAULT_NAME w @
                   ''.vault.azure.net/\"''),
             Echo [],
             Echo ''   Or add it to your .env file:'',
             Echo (''   echo \"AZURE_KEY_VAULT_URL=https://'' @ KEY_VAULT_NAME w @
                   ''.vault.azure.net/\" >> sample.env''),
             Echo [],
             Echo ''2. Run the brokered authentication sample:'',
             Echo ''   npm run build'',
             Echo ''   npm run start:broker'',
             Echo [],
             Echo ''3. Clean up resources when done:'',
             Echo (''   az group delete --name '' @ RESOURCE_GROUP_NAME w @ '' --yes --no-wait''),
             Echo []]
          @ Run CatConfig #
            (if cmd_status w CatConfig = 0 then
             [WriteFile ''./keyvault-config.txt''
                (concat (map (\<lambda>l. l @ [CHR 0x0A])
                   [''# Azure Key Vault Configuration'',
                    ''# Generated on: '' @ cmd_output w Date,
                    [],
                    ''RESOURCE_GROUP_NAME=\"'' @ RESOURCE_GROUP_NAME w @ ''\"'',
                    ''KEY_VAULT_NAME=\"'' @ KEY_VAULT_NAME w @ ''\"'',
                    ''KEY_VAULT_URL=\"https://'' @ KEY_VAULT_NAME w @ ''.vault.azure.net/\"'',
                    ''LOCATION=\"eastus\"'',
                    ''SUBSCRIPTION_ID=\"'' @ SUBSCRIPTION_ID w @ ''\"'',
                    ''USER_UPN=\"'' @ CURRENT_USER_UPN w @ ''\"'',
                    [],
                    ''# Environment variable to set:'',
                    ''export AZURE_KEY_VAULT_URL=\"https://'' @ KEY_VAULT_NAME w @
                      ''.vault.azure.net/\"'',
                    [],
                    ''# To clean up these resources:'',
                    ''# az group delete --name '' @ RESOURCE_GROUP_NAME w @
                      '' --yes --no-wait''])),
              Print SUCCESS ''Configuration saved to: ./keyvault-config.txt'',
              Print INFO ''You can now test the brokered authentication sample!'']
             else [])"
    unfolding o using assms(2)
    by (simp add: role_assignment2_def skipped_msgs_def role_command_def summary_lines_def
        closing_lines_def config_content_def config_lines_def vault_url_def CONFIG_FILE_def
        LOCATION_def CURRENT_USER_OBJECT_ID_def)
  from a o' e show ?thesis by blast
qed

text \<open>The role assignment is refused; the secret write would have succeeded at once.\<close>

theorem role_failure_skips_secret_witness:
  "reaches_role2 world_role_refused
   \<and> cmd_status world_role_refused AzRoleAssignmentCreate \<noteq> 0
   \<and> secret_set world_role_refused 0
   \<and> attempts (out (setup_script2 world_role_refused)) = 0
   \<and> exit_code (setup_script2 world_role_refused) = 0
   \<and> warned (out (setup_script2 world_role_refused)) =
       [''This could be due to insufficient permissions or subscription limitations.'',
        ''Skipping secret creation due to RBAC assignment failure.'',
        ''You can create the secret manually after setting up RBAC permissions:'',
        ''  1. First assign the role: az role assignment create --assignee 'a1b2c3' --role 'Key Vault Secrets Officer' --scope 'a1b2c3''
          @ [CHR 0x27],
        ''  2. Then create secret: az keyvault secret set --vault-name kvbrokerkva1b2c3 --name MySecret --value 'test''
          @ [CHR 0x27]]
   \<and> slept (out (setup_script2 world_role_refused)) = [10]
   \<and> Echo ''=== RESOURCE SUMMARY ==='' \<in> set (out (setup_script2 world_role_refused))
   \<and> Echo ''Key Vault URL: https://kvbrokerkva1b2c3.vault.azure.net/''
       \<in> set (out (setup_script2 world_role_refused))
   \<and> Run CatConfig \<in> set (out (setup_script2 world_role_refused))
   \<and> WriteFile ''./keyvault-config.txt'' (config_content world_role_refused)
       \<in> set (out (setup_script2 world_role_refused))
   \<and> last (out (setup_script2 world_role_refused))
       = Print INFO ''You can now test the brokered authentication sample!''"
proof -
  have r: "reaches_role2 world_role_refused"
    by (simp add: reaches_role2_def calls_before_role2_def world_role_refused_def confirmed_def)
  have f: "cmd_status world_role_refused AzRoleAssignmentCreate \<noteq> 0"
    by (simp add: world_role_refused_def)
  have s: "secret_set world_role_refused 0"
    by (simp add: world_role_refused_def fails_then_succeeds_def)
  have c: "cmd_status world_role_refused CatConfig = 0"
    by (simp add: world_role_refused_def)
  note t = role_failure_skips_secret [OF r f]
  from t have a: "attempts (out (setup_script2 world_role_refused)) = 0"
    by blast
  from t have "exit_code (setup_script2 world_role_refused)
               = cmd_status world_role_refused CatConfig"
    by blast
  with c have e: "exit_code (setup_script2 world_role_refused) = 0"
    by simp
  have w: "warned (out (setup_script2 world_role_refused)) =
       [''This could be due to insufficient permissions or subscription limitations.'',
        ''Skipping secret creation due to RBAC assignment failure.'',
        ''You can create the secret manually after setting up RBAC permissions:'',
        ''  1. First assign the role: az role assignment create --assignee 'a1b2c3' --role 'Key Vault Secrets Officer' --scope 'a1b2c3''
          @ [CHR 0x27],
        ''  2. Then create secret: az keyvault secret set --vault-name kvbrokerkva1b2c3 --name MySecret --value 'test''
          @ [CHR 0x27]]"
    by code_simp
  have sl: "slept (out (setup_script2 world_role_refused)) = [10]"
    by code_simp
  have m1: "Echo ''=== RESOURCE SUMMARY ==='' \<in> set (out (setup_script2 world_role_refused))"
    by code_simp
  have m2: "Echo ''Key Vault URL: https://kvbrokerkva1b2c3.vault.azure.net/''
       \<in> set (out (setup_script2 world_role_refused))"
    by code_simp
  have m3: "Run CatConfig \<in> set (out (setup_script2 world_role_refused))"
    by code_simp
  have m4: "WriteFile ''./keyvault-config.txt'' (config_content world_role_refused)
       \<in> set (out (setup_script2 world_role_refused))"
    by code_simp
  have l: "last (out (setup_script2 world_role_refused))
       = Print INFO ''You can now test the brokered authentication sample!''"
    by code_simp
  show ?thesis
    using r f s a e w sl m1 m2 m3 m4 l by blast
qed

end
